theory Spec2Isabelle
  imports Main "HOL-Library.Word"
begin

unbundle bit_operations_syntax

section \<open>Basic types of the adapter\<close>

text \<open>
  The adapter (\<^verbatim>\<open>dc.c\<close>, \<^verbatim>\<open>dc_bdev.c\<close>) sits between the host VFS and the FAT engine.
  \<^verbatim>\<open>BYTE\<close> and \<^verbatim>\<open>DWORD\<close> are the engine's 8-bit and 32-bit unsigned integers.  An
  engine result code (\<^verbatim>\<open>FRESULT\<close>) is a C enumeration, that is an \<^verbatim>\<open>int\<close>; the numbers
  are the ones written beside each \<^verbatim>\<open>case\<close> of \<^verbatim>\<open>fatfs_set_errno\<close>.
\<close>

type_synonym BYTE = "8 word"
type_synonym DWORD = "32 word"
type_synonym FRESULT = int

definition FR_OK :: FRESULT where [simp]: "FR_OK = 0"
definition FR_DISK_ERR :: FRESULT where [simp]: "FR_DISK_ERR = 1"
definition FR_INT_ERR :: FRESULT where [simp]: "FR_INT_ERR = 2"
definition FR_NOT_READY :: FRESULT where [simp]: "FR_NOT_READY = 3"
definition FR_NO_FILE :: FRESULT where [simp]: "FR_NO_FILE = 4"
definition FR_NO_PATH :: FRESULT where [simp]: "FR_NO_PATH = 5"
definition FR_INVALID_NAME :: FRESULT where [simp]: "FR_INVALID_NAME = 6"
definition FR_DENIED :: FRESULT where [simp]: "FR_DENIED = 7"
definition FR_EXIST :: FRESULT where [simp]: "FR_EXIST = 8"
definition FR_INVALID_OBJECT :: FRESULT where [simp]: "FR_INVALID_OBJECT = 9"
definition FR_WRITE_PROTECTED :: FRESULT where [simp]: "FR_WRITE_PROTECTED = 10"
definition FR_INVALID_DRIVE :: FRESULT where [simp]: "FR_INVALID_DRIVE = 11"
definition FR_NOT_ENABLED :: FRESULT where [simp]: "FR_NOT_ENABLED = 12"
definition FR_NO_FILESYSTEM :: FRESULT where [simp]: "FR_NO_FILESYSTEM = 13"
definition FR_MKFS_ABORTED :: FRESULT where [simp]: "FR_MKFS_ABORTED = 14"
definition FR_TIMEOUT :: FRESULT where [simp]: "FR_TIMEOUT = 15"
definition FR_LOCKED :: FRESULT where [simp]: "FR_LOCKED = 16"
definition FR_NOT_ENOUGH_CORE :: FRESULT where [simp]: "FR_NOT_ENOUGH_CORE = 17"
definition FR_TOO_MANY_OPEN_FILES :: FRESULT where [simp]: "FR_TOO_MANY_OPEN_FILES = 18"
definition FR_INVALID_PARAMETER :: FRESULT where [simp]: "FR_INVALID_PARAMETER = 19"

text \<open>
  The host's \<^verbatim>\<open>errno\<close>.  The numeric values of the host's error numbers are not part of
  the sources, so the model keeps them symbolic: one constructor for each name the two files
  use, \<open>NOERR\<close> for the value 0, and \<open>E_other\<close> for every other number a driver below the
  engine may have stored.
\<close>

datatype errno_t =
    NOERR | EIO | EFAULT | ENODEV | ENOENT | EINVAL | ENOSPC | EACCES | EBADF | EROFS
  | ENXIO | EIDRM | ETIME | EAGAIN | ENOMEM | EMFILE | ENFILE | EOVERFLOW | E_other nat

section \<open>Error translator\<close>

text \<open>
  \<^verbatim>\<open>fatfs_set_errno\<close> assigns the global \<^verbatim>\<open>errno\<close>; the model takes the value \<^verbatim>\<open>errno\<close> had
  before the call and returns the value it has after.  The \<^verbatim>\<open>switch\<close> is written as the
  chain of its cases in source order; the \<^verbatim>\<open>FR_DISK_ERR\<close> case only breaks.
\<close>

definition fatfs_set_errno :: "FRESULT \<Rightarrow> errno_t \<Rightarrow> errno_t" where
  "fatfs_set_errno rc e =
     (if rc = FR_OK then NOERR
      else if rc = FR_DISK_ERR then e
      else if rc = FR_INT_ERR then EFAULT
      else if rc = FR_NOT_READY then ENODEV
      else if rc = FR_NO_FILE \<or> rc = FR_NO_PATH then ENOENT
      else if rc = FR_INVALID_NAME then EINVAL
      else if rc = FR_DENIED then ENOSPC
      else if rc = FR_EXIST then EACCES
      else if rc = FR_INVALID_OBJECT then EBADF
      else if rc = FR_WRITE_PROTECTED then EROFS
      else if rc = FR_INVALID_DRIVE then ENXIO
      else if rc = FR_NOT_ENABLED then EIDRM
      else if rc = FR_NO_FILESYSTEM then EIO
      else if rc = FR_MKFS_ABORTED then EINVAL
      else if rc = FR_TIMEOUT then ETIME
      else if rc = FR_LOCKED then EAGAIN
      else if rc = FR_NOT_ENOUGH_CORE then ENOMEM
      else if rc = FR_TOO_MANY_OPEN_FILES then EMFILE
      else if rc = FR_INVALID_PARAMETER then EINVAL
      else NOERR)"

section \<open>Partition scanner\<close>

text \<open>
  \<^verbatim>\<open>is_fat_partition\<close> (\<^verbatim>\<open>dc_bdev.c\<close>) classifies the partition-type byte of an MBR entry:
  16 and 32 stand for the FAT16-style and FAT32-style classes, 0 for every other type.
\<close>

definition is_fat_partition :: "BYTE \<Rightarrow> int" where
  "is_fat_partition partition_type =
     (if partition_type = 0x04 \<or> partition_type = 0x06 then 16
      else if partition_type = 0x0B \<or> partition_type = 0x0C then 32
      else 0)"

text \<open>
  \<^verbatim>\<open>check_partition\<close> reads a boot sector held in \<^verbatim>\<open>buf\<close>.  A C read beyond the end of the
  buffer is undefined; the model returns \<open>None\<close> there, and \<open>Some r\<close> for the returned
  \<^verbatim>\<open>int\<close> otherwise.  The second signature byte is read only when the first one matches, as
  the \<^verbatim>\<open>||\<close> of the source does.
\<close>

definition check_partition :: "BYTE list \<Rightarrow> int \<Rightarrow> int option" where
  "check_partition buf part =
     (if length buf \<le> 0x01FE then None
      else if buf ! 0x01FE \<noteq> 0x55 then Some (- 1)
      else if length buf \<le> 0x1FF then None
      else if buf ! 0x1FF \<noteq> 0xAA then Some (- 1)
      else
        (let pval = 16 * part + 0x01BE
         in if pval + 4 < 0 \<or> int (length buf) \<le> pval + 4 then None
            else if buf ! nat (pval + 4) = 0 then Some (- 1)
            else Some 0))"

text \<open>A sector of zeros, and the same sector carrying the MBR signature.\<close>

definition blank_sector :: "BYTE list" where
  "blank_sector = replicate 512 0"

definition signed_sector :: "BYTE list" where
  "signed_sector = blank_sector[0x01FE := 0x55, 0x1FF := 0xAA]"

section \<open>Engine objects, handles and mounts\<close>

text \<open>
  The engine's headers are not part of the sources; the records below carry the fields of the
  engine's objects that the adapter reads or writes.  \<open>FATFS\<close> is the per-volume work area,
  \<open>FIL\<close> the open-file context (\<open>fil_priv\<close> stands for the fields the adapter never looks
  at) and a directory context \<open>DIR\<close> is opaque.  A pointer to a work area is modelled by the
  work area it points to, \<open>None\<close> being \<^verbatim>\<open>NULL\<close>.  The engine's \<^verbatim>\<open>f_size\<close> and \<^verbatim>\<open>f_tell\<close>
  read the fields \<open>fsize\<close> and \<open>fptr\<close>, as the adapter itself does in \<^verbatim>\<open>fat_open\<close> and
  \<^verbatim>\<open>fat_seek\<close>.

  \<open>cltbl\<close> is the pointer to the cluster link map: \<^verbatim>\<open>NULL\<close>, the address of the handle's
  own inline array \<^verbatim>\<open>lktbl\<close>, or the address of a block obtained from \<^verbatim>\<open>calloc\<close>.
  Addresses of byte buffers are 32-bit numbers, 0 being \<^verbatim>\<open>NULL\<close>.
\<close>

datatype cltbl_ref = TblNull | TblInline | TblHeap nat

datatype DRESULT = RES_OK | RES_ERROR | RES_PARERR | STA_NOINIT

record FATFS =
  drv :: BYTE
  csize :: BYTE

record FIL =
  fil_fs :: "FATFS option"
  fsize :: DWORD
  fptr :: DWORD
  sclust :: DWORD
  cltbl :: cltbl_ref
  fil_priv :: nat

type_synonym DIR = nat

record FILINFO =
  fi_fsize :: DWORD
  fi_fdate :: "16 word"
  fi_ftime :: "16 word"
  fi_fattrib :: BYTE
  fi_fname :: string
  fi_lfname :: string

record dirent_t =
  d_size :: int
  d_name :: string
  d_time :: int
  d_attr :: "32 word"

text \<open>
  A block device of the host: its private data (for the SD device built by
  \<^verbatim>\<open>sd_blockdev_for_device\<close>, the first block and the number of blocks), the binary logarithm
  of its block size, and \<open>dev_ops\<close>, which stands for the set of function pointers of the
  structure (the driver behind the device).
\<close>

record sd_devdata_t =
  block_count :: nat
  start_block :: nat

record kos_blockdev_t =
  dev_data :: "sd_devdata_t option"
  l_block_size :: nat
  dev_ops :: nat

record vfs_handler_t =
  pathname :: string
  privdata :: "nat option"

text \<open>
  \<^verbatim>\<open>fatfs_mnt_t\<close>, one slot of the mount table \<^verbatim>\<open>fat_mnt\<close>.  \<open>dmabuf\<close> is the address of the
  DMA scratch buffer; the field exists only in a build with \<^verbatim>\<open>FATFS_USE_DMA_BUF\<close>.
\<close>

record fatfs_mnt_t =
  fs :: "FATFS option"
  vfsh :: "vfs_handler_t option"
  dev :: "kos_blockdev_t option"
  dev_dma :: "kos_blockdev_t option"
  dev_stat :: BYTE
  dev_id :: BYTE
  dev_path :: string
  dmabuf :: DWORD

text \<open>
  \<^verbatim>\<open>fatfs_t\<close>, one slot of the handle pool \<^verbatim>\<open>fh\<close> (\<open>ftype\<close> is the field \<^verbatim>\<open>type\<close>).  \<open>mnt\<close>
  points into the mount table and is modelled by the index of the slot it points to.
\<close>

record fatfs_t =
  fil :: FIL
  dir :: DIR
  ftype :: int
  used :: int
  mode :: "32 word"
  lktbl :: "DWORD list"
  dent :: dirent_t
  mnt :: "nat option"

text \<open>What \<^verbatim>\<open>fat_fstat\<close> stores: \<open>st_isdir\<close> tells \<^verbatim>\<open>S_IFDIR\<close> from \<^verbatim>\<open>S_IFREG\<close> in the mode.\<close>

record stat_t =
  st_dev :: kos_blockdev_t
  st_isdir :: bool
  st_nlink :: int
  st_size :: int
  st_blksize :: int
  st_blocks :: int

definition MAX_FAT_FILES :: nat where
  "MAX_FAT_FILES = 16"

definition FATFS_LINK_TBL_SIZE :: nat where
  "FATFS_LINK_TBL_SIZE = 32"

definition MAX_PARTITIONS :: nat where
  "MAX_PARTITIONS = 4"

text \<open>The result of \<^verbatim>\<open>memset(.., 0, ..)\<close> on each structure.\<close>

definition zero_FIL :: FIL where
  "zero_FIL = \<lparr>fil_fs = None, fsize = 0, fptr = 0, sclust = 0, cltbl = TblNull, fil_priv = 0\<rparr>"

definition zero_dirent :: dirent_t where
  "zero_dirent = \<lparr>d_size = 0, d_name = [], d_time = 0, d_attr = 0\<rparr>"

definition zero_fatfs :: fatfs_t where
  "zero_fatfs = \<lparr>fil = zero_FIL, dir = 0, ftype = 0, used = 0, mode = 0,
     lktbl = replicate FATFS_LINK_TBL_SIZE 0, dent = zero_dirent, mnt = None\<rparr>"

definition zero_mnt :: fatfs_mnt_t where
  "zero_mnt = \<lparr>fs = None, vfsh = None, dev = None, dev_dma = None, dev_stat = 0, dev_id = 0,
     dev_path = [], dmabuf = 0\<rparr>"

definition zero_dev :: kos_blockdev_t where
  "zero_dev = \<lparr>dev_data = None, l_block_size = 0, dev_ops = 0\<rparr>"

section \<open>The world outside the adapter\<close>

text \<open>
  Every function the adapter calls but does not define (the engine, the block-device
  drivers, the allocator, the name manager) is a field of the environment \<open>E\<close>.  Such a
  function sees and may change the state \<open>'g\<close> of the outside world and the host's
  \<^verbatim>\<open>errno\<close> (the drivers store error numbers there), and returns its C results.  The constants
  of headers that are not among the sources (open flags, seek origins, command codes, the
  number of volumes) are fields of \<open>E\<close> as well, so every statement holds for each choice of
  their values (\<open>od\<close> and \<open>cd\<close> group the constants, \<open>engine\<close>, \<open>host\<close> and \<open>drivers\<close> the
  functions).

  The engine treats \<open>cltbl\<close> as set by the application: an engine function returns the new
  file context, and the adapter's model keeps the \<open>cltbl\<close> field it had.  \<^verbatim>\<open>f_lseek\<close>
  additionally receives the contents of the link-map buffer and returns its new contents.
  \<^verbatim>\<open>malloc\<close> tells whether the object was obtained; \<^verbatim>\<open>calloc\<close> and \<^verbatim>\<open>memalign\<close> return the
  address of the block.
\<close>

type_synonym 'g outside = "errno_t \<times> 'g"

datatype memobj = Obj_vfsh | Obj_fs | Obj_dmabuf | Obj_devs | Obj_devdata

record open_defs =
  O_MODE_MASK :: "32 word"
  O_RDONLY :: "32 word"
  O_WRONLY :: "32 word"
  O_RDWR :: "32 word"
  O_TRUNC :: "32 word"
  O_APPEND :: "32 word"
  O_DIR :: "32 word"
  FA_READ :: "32 word"
  FA_WRITE :: "32 word"
  FA_OPEN_EXISTING :: "32 word"
  FA_CREATE_NEW :: "32 word"
  FA_CREATE_ALWAYS :: "32 word"
  AM_DIR :: BYTE

record cmd_defs =
  STAT_TYPE_FILE :: int
  STAT_TYPE_DIR :: int
  SEEK_SET :: int
  SEEK_CUR :: int
  SEEK_END :: int
  F_GETFL :: int
  F_SETFL :: int
  F_GETFD :: int
  F_SETFD :: int
  FATFS_IOCTL_GET_BOOT_SECTOR_DATA :: int
  FATFS_IOCTL_GET_FD_LBA :: int
  FATFS_IOCTL_GET_FD_LINK_MAP :: int
  CTRL_SYNC :: BYTE
  GET_SECTOR_COUNT :: BYTE
  GET_SECTOR_SIZE :: BYTE
  GET_BLOCK_SIZE :: BYTE
  CTRL_TRIM :: BYTE

record 'g engine =
  f_chdrive :: "string \<Rightarrow> 'g outside \<Rightarrow> FRESULT \<times> 'g outside"
  f_opendir :: "DIR \<Rightarrow> string \<Rightarrow> 'g outside \<Rightarrow> (FRESULT \<times> DIR) \<times> 'g outside"
  f_open :: "FIL \<Rightarrow> string \<Rightarrow> BYTE \<Rightarrow> 'g outside \<Rightarrow> (FRESULT \<times> FIL) \<times> 'g outside"
  f_sync :: "FIL \<Rightarrow> 'g outside \<Rightarrow> (FRESULT \<times> FIL) \<times> 'g outside"
  f_lseek :: "FIL \<Rightarrow> DWORD list \<Rightarrow> DWORD \<Rightarrow> 'g outside
                \<Rightarrow> (FRESULT \<times> FIL \<times> DWORD list) \<times> 'g outside"
  f_close :: "FIL \<Rightarrow> 'g outside \<Rightarrow> (FRESULT \<times> FIL) \<times> 'g outside"
  f_closedir :: "DIR \<Rightarrow> 'g outside \<Rightarrow> (FRESULT \<times> DIR) \<times> 'g outside"
  f_read :: "FIL \<Rightarrow> DWORD \<Rightarrow> DWORD \<Rightarrow> 'g outside \<Rightarrow> (FRESULT \<times> FIL \<times> DWORD) \<times> 'g outside"
  f_write :: "FIL \<Rightarrow> DWORD \<Rightarrow> DWORD \<Rightarrow> 'g outside \<Rightarrow> (FRESULT \<times> FIL \<times> DWORD) \<times> 'g outside"
  f_readdir :: "DIR \<Rightarrow> 'g outside \<Rightarrow> (FRESULT \<times> DIR \<times> FILINFO) \<times> 'g outside"
  f_rewinddir :: "DIR \<Rightarrow> 'g outside \<Rightarrow> (FRESULT \<times> DIR) \<times> 'g outside"
  f_mount :: "string \<Rightarrow> 'g outside \<Rightarrow> (FRESULT \<times> FATFS) \<times> 'g outside"
  f_getfree :: "string \<Rightarrow> 'g outside \<Rightarrow> FRESULT \<times> 'g outside"
  clust2sect :: "FATFS \<Rightarrow> DWORD \<Rightarrow> DWORD"

record 'g host =
  calloc :: "nat \<Rightarrow> 'g outside \<Rightarrow> nat option \<times> 'g outside"
  malloc :: "memobj \<Rightarrow> 'g outside \<Rightarrow> bool \<times> 'g outside"
  memalign :: "nat \<Rightarrow> 'g outside \<Rightarrow> DWORD \<times> 'g outside"
  init :: "kos_blockdev_t \<Rightarrow> 'g outside \<Rightarrow> int \<times> 'g outside"
  shutdown :: "kos_blockdev_t \<Rightarrow> 'g outside \<Rightarrow> int \<times> 'g outside"
  read_blocks :: "kos_blockdev_t \<Rightarrow> DWORD \<Rightarrow> DWORD \<Rightarrow> DWORD \<Rightarrow> 'g outside \<Rightarrow> int \<times> 'g outside"
  write_blocks :: "kos_blockdev_t \<Rightarrow> DWORD \<Rightarrow> DWORD \<Rightarrow> DWORD \<Rightarrow> 'g outside \<Rightarrow> int \<times> 'g outside"
  count_blocks :: "kos_blockdev_t \<Rightarrow> 'g outside \<Rightarrow> DWORD \<times> 'g outside"
  flush :: "kos_blockdev_t \<Rightarrow> 'g outside \<Rightarrow> int \<times> 'g outside"
  nmmgr_handler_add :: "vfs_handler_t \<Rightarrow> 'g outside \<Rightarrow> int \<times> 'g outside"
  nmmgr_handler_remove :: "vfs_handler_t \<Rightarrow> 'g outside \<Rightarrow> int \<times> 'g outside"

record 'g drivers =
  sd_init :: "'g outside \<Rightarrow> int \<times> 'g outside"
  scif_init :: "'g outside \<Rightarrow> int \<times> 'g outside"
  sd_get_size :: "'g outside \<Rightarrow> nat \<times> 'g outside"
  sd_read_blocks :: "DWORD \<Rightarrow> DWORD \<Rightarrow> 'g outside \<Rightarrow> (int \<times> BYTE list) \<times> 'g outside"
  sd_blockdev_for_partition :: "nat \<Rightarrow> 'g outside \<Rightarrow> (int \<times> kos_blockdev_t \<times> BYTE) \<times> 'g outside"
  g1_ata_init :: "'g outside \<Rightarrow> int \<times> 'g outside"
  g1_ata_lba_mode :: "'g outside \<Rightarrow> int \<times> 'g outside"
  g1_ata_read_lba :: "DWORD \<Rightarrow> DWORD \<Rightarrow> 'g outside \<Rightarrow> (int \<times> BYTE list) \<times> 'g outside"
  g1_ata_read_chs :: "'g outside \<Rightarrow> (int \<times> BYTE list) \<times> 'g outside"
  g1_ata_blockdev_for_partition :: "nat \<Rightarrow> 'g outside \<Rightarrow> (int \<times> kos_blockdev_t \<times> BYTE) \<times> 'g outside"
  g1_ata_blockdev_for_device :: "nat \<Rightarrow> 'g outside \<Rightarrow> (int \<times> kos_blockdev_t) \<times> 'g outside"

record 'g env =
  MAX_FAT_MOUNTS :: nat
  FATFS_USE_DMA_BUF :: bool
  od :: open_defs
  cd :: cmd_defs
  engine :: "'g engine"
  host :: "'g host"
  drivers :: "'g drivers"

text \<open>
  The calls the adapter makes to the outside, in the order it makes them, are recorded in a
  trace.  A transfer of bytes between buffers is recorded by the addresses and the length
  of the transfer; the contents of byte buffers are not modelled.
\<close>

datatype call =
    Call_f_chdrive string
  | Call_f_opendir string
  | Call_f_open string BYTE
  | Call_f_sync FIL
  | Call_f_lseek FIL "DWORD list" DWORD
  | Call_f_close FIL
  | Call_f_closedir DIR
  | Call_f_read FIL DWORD DWORD
  | Call_f_write FIL DWORD DWORD
  | Call_f_readdir DIR
  | Call_f_rewinddir DIR
  | Call_f_mount string
  | Call_f_getfree string
  | Call_calloc nat
  | Call_free nat
  | Call_malloc memobj
  | Call_free_obj memobj
  | Call_memalign nat
  | Call_init kos_blockdev_t
  | Call_shutdown kos_blockdev_t
  | Call_read_blocks kos_blockdev_t DWORD DWORD DWORD
  | Call_write_blocks kos_blockdev_t DWORD DWORD DWORD
  | Call_count_blocks kos_blockdev_t
  | Call_flush kos_blockdev_t
  | Call_memcpy DWORD DWORD DWORD
  | Call_nmmgr_handler_add vfs_handler_t
  | Call_nmmgr_handler_remove vfs_handler_t
  | Call_driver string nat

text \<open>
  The adapter's own state: \<^verbatim>\<open>errno\<close>, the file-scope variables of the two files (arrays are
  functions of the index; only indices below the array's size are ever used; an array
  obtained from \<^verbatim>\<open>malloc\<close> is \<open>None\<close> while its pointer is \<^verbatim>\<open>NULL\<close>), the blocks obtained
  from \<^verbatim>\<open>calloc\<close> and not yet freed, the state of the outside and the trace.
\<close>

record 'g world =
  errno :: errno_t
  initted :: bool
  fh :: "nat \<Rightarrow> fatfs_t"
  fat_mnt :: "nat \<Rightarrow> fatfs_mnt_t"
  VolToPart :: "nat \<Rightarrow> BYTE \<times> BYTE"
  sd_dev :: "(nat \<Rightarrow> kos_blockdev_t) option"
  g1_dev :: "(nat \<Rightarrow> kos_blockdev_t) option"
  g1_dev_dma :: "(nat \<Rightarrow> kos_blockdev_t) option"
  heap :: "nat \<rightharpoonup> DWORD list"
  ext :: 'g
  trace :: "call list"

text \<open>A call to the outside: run it on \<^verbatim>\<open>errno\<close> and the outside state, record it.\<close>

definition ext_call :: "call \<Rightarrow> ('g outside \<Rightarrow> 'r \<times> 'g outside) \<Rightarrow> 'g world \<Rightarrow> 'r \<times> 'g world" where
  "ext_call c f w =
     (let (r, e, g) = f (errno w, ext w)
      in (r, w\<lparr>errno := e, ext := g, trace := trace w @ [c]\<rparr>))"

text \<open>
  A C fault, after which nothing is defined: the program dereferences a null pointer, or
  reads outside a buffer.
\<close>

datatype fault = NullDeref | OutOfBounds

section \<open>Fast-seek link map\<close>

text \<open>
  Modelled from the spec: the engine's sentinel offset \<^verbatim>\<open>CREATE_LINKMAP\<close> ("a sentinel value
  meaning build/refresh the fast-seek index instead of moving the cursor") is declared in the
  engine's header, which is not among the sources; the model takes the engine's all-ones
  offset for it.
\<close>

definition CREATE_LINKMAP :: DWORD where
  "CREATE_LINKMAP = 0xFFFFFFFF"

text \<open>
  The engine writes into the buffer it is given and cannot change its size: what it returns
  is cut or zero-padded to the size of the buffer.
\<close>

definition fit :: "nat \<Rightarrow> DWORD list \<Rightarrow> DWORD list" where
  "fit n xs = take n xs @ replicate (n - length xs) 0"

text \<open>The buffer \<open>cltbl\<close> points to; empty for \<^verbatim>\<open>NULL\<close> and for a block that was freed.\<close>

definition cltbl_buf :: "'g world \<Rightarrow> fatfs_t \<Rightarrow> DWORD list" where
  "cltbl_buf w sf =
     (case cltbl (fil sf) of
        TblNull \<Rightarrow> []
      | TblInline \<Rightarrow> lktbl sf
      | TblHeap a \<Rightarrow> (case heap w a of None \<Rightarrow> [] | Some b \<Rightarrow> b))"

definition set_sf :: "nat \<Rightarrow> fatfs_t \<Rightarrow> 'g world \<Rightarrow> 'g world" where
  "set_sf fd sf w = w\<lparr>fh := (fh w)(fd := sf)\<rparr>"

text \<open>
  \<^verbatim>\<open>f_lseek(&sf->fil, ofs)\<close> on the handle in slot \<open>fd\<close>: the engine gets the file context and
  the link-map buffer, and its results are stored back into the context and into the buffer
  \<open>cltbl\<close> points to.
\<close>

definition call_f_lseek :: "'g env \<Rightarrow> nat \<Rightarrow> DWORD \<Rightarrow> 'g world \<Rightarrow> FRESULT \<times> 'g world" where
  "call_f_lseek E fd ofs w =
     (let sf = fh w fd;
          buf = cltbl_buf w sf;
          (r, w1) = ext_call (Call_f_lseek (fil sf) buf ofs) (f_lseek (engine E) (fil sf) buf ofs) w;
          (rc, fil1, buf1) = r;
          sf1 = sf\<lparr>fil := fil1\<lparr>cltbl := cltbl (fil sf)\<rparr>\<rparr>
      in (rc,
          (case cltbl (fil sf) of
             TblNull \<Rightarrow> set_sf fd sf1 w1
           | TblInline \<Rightarrow> set_sf fd (sf1\<lparr>lktbl := fit (length buf) buf1\<rparr>) w1
           | TblHeap a \<Rightarrow>
               (case heap w a of
                  None \<Rightarrow> set_sf fd sf1 w1
                | Some b \<Rightarrow> (set_sf fd sf1 w1)\<lparr>heap := (heap w1)(a \<mapsto> fit (length b) buf1)\<rparr>))))"

text \<open>
  \<^verbatim>\<open>fat_create_linkmap\<close>.  After the first engine call \<open>cltbl\<close> still points at the inline
  array, so \<^verbatim>\<open>sf->fil.cltbl[0]\<close> is the first cell of \<open>lktbl\<close>.  \<^verbatim>\<open>calloc\<close> returns the
  address of a zeroed block of \<open>lms\<close> cells or \<^verbatim>\<open>NULL\<close>; the store into the first cell of a
  block of no cells (the engine never asks for one) is outside the block and leaves the model's
  block as it is.
\<close>

definition fat_create_linkmap :: "'g env \<Rightarrow> nat \<Rightarrow> 'g world \<Rightarrow> FRESULT \<times> 'g world" where
  "fat_create_linkmap E fd w =
     (if cltbl (fil (fh w fd)) \<noteq> TblNull then (FR_OK, w)
      else
        (let sf = fh w fd;
             w1 = set_sf fd (sf\<lparr>lktbl := (replicate FATFS_LINK_TBL_SIZE 0)[0 := word_of_nat FATFS_LINK_TBL_SIZE],
                               fil := (fil sf)\<lparr>cltbl := TblInline\<rparr>\<rparr>) w;
             (rc, w2) = call_f_lseek E fd CREATE_LINKMAP w1;
             (rc', w6) =
               (if rc = FR_NOT_ENOUGH_CORE then
                  (let lms = lktbl (fh w2 fd) ! 0;
                       (p, w3) = ext_call (Call_calloc (unat lms)) (calloc (host E) (unat lms)) w2
                   in case p of
                        None \<Rightarrow> (rc, set_sf fd ((fh w3 fd)\<lparr>fil := (fil (fh w3 fd))\<lparr>cltbl := TblNull\<rparr>\<rparr>) w3)
                      | Some a \<Rightarrow>
                          (let w4 = (set_sf fd ((fh w3 fd)\<lparr>fil := (fil (fh w3 fd))\<lparr>cltbl := TblHeap a\<rparr>\<rparr>) w3)
                                      \<lparr>heap := (heap w3)(a \<mapsto> (replicate (unat lms) 0)[0 := lms])\<rparr>;
                               (rc2, w5) = call_f_lseek E fd CREATE_LINKMAP w4
                           in if rc2 \<noteq> FR_OK
                              then (rc2, w5\<lparr>heap := (heap w5)(a := None), trace := trace w5 @ [Call_free a]\<rparr>)
                              else (rc2, w5)))
                else (rc, w2))
         in if rc' \<noteq> FR_OK
            then (rc', set_sf fd ((fh w6 fd)\<lparr>fil := (fil (fh w6 fd))\<lparr>cltbl := TblNull\<rparr>\<rparr>) w6)
            else (rc', w6)))"

section \<open>Handle pool\<close>

text \<open>
  The macro \<^verbatim>\<open>FAT_GET_HND(hnd, rv)\<close>.  A handle is a pointer-sized value; \<^verbatim>\<open>file_t\<close> is a
  32-bit signed integer, and \<open>hnd - 1\<close> is computed in it (wrapping at the lowest value).
  The macro either binds \<open>sf\<close> to the slot \<open>fh[fd]\<close> and goes on with the body of the
  function, or sets \<^verbatim>\<open>errno\<close> and returns \<open>rv\<close>.
\<close>

definition hnd_fd :: "32 word \<Rightarrow> nat option" where
  "hnd_fd hnd =
     (let fd = hnd - 1
      in if - 1 < sint fd \<and> sint fd < int MAX_FAT_FILES then Some (nat (sint fd)) else None)"

definition FAT_GET_HND ::
  "32 word \<Rightarrow> 'r \<Rightarrow> (nat \<Rightarrow> 'g world \<Rightarrow> fault + 'r \<times> 'g world) \<Rightarrow> 'g world \<Rightarrow> fault + 'r \<times> 'g world" where
  "FAT_GET_HND hnd rv body w =
     (case hnd_fd hnd of
        Some fd \<Rightarrow> body fd w
      | None \<Rightarrow> Inr (rv, w\<lparr>errno := ENFILE\<rparr>))"

text \<open>
  An engine function returns the new file context; it is stored in the slot with the
  \<open>cltbl\<close> the slot had.
\<close>

definition store_fil :: "nat \<Rightarrow> FIL \<Rightarrow> 'g world \<Rightarrow> 'g world" where
  "store_fil fd f w = set_sf fd ((fh w fd)\<lparr>fil := f\<lparr>cltbl := cltbl (fil (fh w fd))\<rparr>\<rparr>) w"

definition call_f_sync :: "'g env \<Rightarrow> nat \<Rightarrow> 'g world \<Rightarrow> FRESULT \<times> 'g world" where
  "call_f_sync E fd w =
     (let ((rc, f), w1) = ext_call (Call_f_sync (fil (fh w fd))) (f_sync (engine E) (fil (fh w fd))) w
      in (rc, store_fil fd f w1))"

subsection \<open>\<^verbatim>\<open>fat_open\<close>\<close>

text \<open>
  The search for a free slot is the \<^verbatim>\<open>for\<close> loop over \<^verbatim>\<open>fh\<close>; \<open>fn\<close> is \<open>None\<close> for a null
  path.  The result is the handle \<open>fd + 1\<close>, or 0 for \<^verbatim>\<open>NULL\<close>.  The function is written
  in the blocks of the source: the switch on the access mode (\<open>open_mode_flags\<close>, \<open>None\<close>
  for its \<^verbatim>\<open>default\<close>), the directory branch, the seek of the append flag, and the file
  branch.
\<close>

fun find_free :: "(nat \<Rightarrow> fatfs_t) \<Rightarrow> nat \<Rightarrow> nat \<Rightarrow> nat option" where
  "find_free tab fd 0 = None"
| "find_free tab fd (Suc n) = (if used (tab fd) = 0 then Some fd else find_free tab (Suc fd) n)"

definition open_mode_flags :: "'g env \<Rightarrow> 32 word \<Rightarrow> 32 word option" where
  "open_mode_flags E flags =
     (let md = flags AND O_MODE_MASK (od E);
          creation = (if flags AND O_TRUNC (od E) \<noteq> 0 then FA_CREATE_ALWAYS (od E) else FA_CREATE_NEW (od E))
      in if md = O_RDONLY (od E) then Some (FA_OPEN_EXISTING (od E) OR FA_READ (od E))
         else if md = O_WRONLY (od E) then Some (FA_WRITE (od E) OR creation)
         else if md = O_RDWR (od E) then Some ((FA_WRITE (od E) OR FA_READ (od E)) OR creation)
         else None)"

definition fat_open_dir :: "'g env \<Rightarrow> nat \<Rightarrow> string \<Rightarrow> 'g world \<Rightarrow> 32 word \<times> 'g world" where
  "fat_open_dir E fd path w =
     (let ((rc, d), w1) = ext_call (Call_f_opendir path) (f_opendir (engine E) (dir (fh w fd)) path) w;
          w2 = set_sf fd ((fh w1 fd)\<lparr>dir := d\<rparr>) w1
      in if rc \<noteq> FR_OK then (0, w2\<lparr>errno := fatfs_set_errno rc (errno w2)\<rparr>)
         else (word_of_nat (fd + 1),
               set_sf fd ((fh w2 fd)\<lparr>used := 1, ftype := STAT_TYPE_DIR (cd E)\<rparr>) w2))"

definition append_seek :: "'g env \<Rightarrow> 32 word \<Rightarrow> nat \<Rightarrow> 'g world \<Rightarrow> 'g world" where
  "append_seek E flags fd w =
     (if flags AND O_APPEND (od E) \<noteq> 0 \<and> 0 < fsize (fil (fh w fd))
      then snd (call_f_lseek E fd (fsize (fil (fh w fd)) - 1) w)
      else w)"

definition fat_open_file :: "'g env \<Rightarrow> nat \<Rightarrow> 32 word \<Rightarrow> string \<Rightarrow> 'g world \<Rightarrow> 32 word \<times> 'g world" where
  "fat_open_file E fd flags path w =
     (case open_mode_flags E flags of
        None \<Rightarrow> (0, w\<lparr>errno := EINVAL\<rparr>)
      | Some fat_flags \<Rightarrow>
          (let w1 = set_sf fd ((fh w fd)\<lparr>ftype := STAT_TYPE_FILE (cd E)\<rparr>) w;
               ((rc, f), w2) = ext_call (Call_f_open path (ucast fat_flags))
                                 (f_open (engine E) (fil (fh w1 fd)) path (ucast fat_flags)) w1;
               w3 = store_fil fd f w2
           in if rc \<noteq> FR_OK then (0, w3\<lparr>errno := fatfs_set_errno rc (errno w3)\<rparr>)
              else
                (let w4 = (if fat_flags AND FA_WRITE (od E) \<noteq> 0 then snd (call_f_sync E fd w3) else w3);
                     w5 = append_seek E flags fd w4
                 in (word_of_nat (fd + 1), set_sf fd ((fh w5 fd)\<lparr>used := 1\<rparr>) w5))))"

definition fat_open :: "'g env \<Rightarrow> vfs_handler_t \<Rightarrow> string option \<Rightarrow> 32 word \<Rightarrow> 'g world \<Rightarrow> 32 word \<times> 'g world" where
  "fat_open E vfs fn flags w =
     (case privdata vfs of
        None \<Rightarrow> (0, w\<lparr>errno := ENOMEM\<rparr>)
      | Some m \<Rightarrow>
          (case find_free (fh w) 0 MAX_FAT_FILES of
             None \<Rightarrow> (0, w\<lparr>errno := ENFILE\<rparr>)
           | Some fd \<Rightarrow>
               (let w1 = set_sf fd zero_fatfs w;
                    (rc, w2) = ext_call (Call_f_chdrive (dev_path (fat_mnt w1 m)))
                                 (f_chdrive (engine E) (dev_path (fat_mnt w1 m))) w1
                in if rc \<noteq> FR_OK then (0, w2\<lparr>errno := fatfs_set_errno rc (errno w2)\<rparr>)
                   else
                     (let w3 = set_sf fd ((fh w2 fd)\<lparr>mode := flags, mnt := Some m\<rparr>) w2;
                          path = (case fn of None \<Rightarrow> ''/'' | Some p \<Rightarrow> p)
                      in if flags AND O_DIR (od E) \<noteq> 0 then fat_open_dir E fd path w3
                         else fat_open_file E fd flags path w3))))"

subsection \<open>\<^verbatim>\<open>fat_close\<close>\<close>

text \<open>\<^verbatim>\<open>free\<close> releases the block and is recorded in the trace.\<close>

definition call_free :: "cltbl_ref \<Rightarrow> 'g world \<Rightarrow> 'g world" where
  "call_free p w =
     (case p of
        TblHeap a \<Rightarrow> w\<lparr>heap := (heap w)(a := None), trace := trace w @ [Call_free a]\<rparr>
      | _ \<Rightarrow> w)"

definition fat_close_body :: "'g env \<Rightarrow> nat \<Rightarrow> 'g world \<Rightarrow> fault + int \<times> 'g world" where
  "fat_close_body E fd w0 =
     (let w = set_sf fd ((fh w0 fd)\<lparr>used := 0\<rparr>) w0;
          sf = fh w fd
      in if ftype sf = STAT_TYPE_FILE (cd E) then
           (let w1 = (if cltbl (fil sf) \<noteq> TblInline \<and> cltbl (fil sf) \<noteq> TblNull
                      then call_free (cltbl (fil sf)) w else w);
                ((rc, f), w2) = ext_call (Call_f_close (fil sf)) (f_close (engine E) (fil sf)) w1;
                w3 = store_fil fd f w2
            in if rc \<noteq> FR_OK then Inr (- 1, w3\<lparr>errno := fatfs_set_errno rc (errno w3)\<rparr>)
               else Inr (0, w3))
         else if ftype sf = STAT_TYPE_DIR (cd E) then
           (let ((rc, d), w2) = ext_call (Call_f_closedir (dir sf)) (f_closedir (engine E) (dir sf)) w;
                w3 = set_sf fd ((fh w2 fd)\<lparr>dir := d\<rparr>) w2
            in if rc \<noteq> FR_OK then Inr (- 1, w3\<lparr>errno := fatfs_set_errno rc (errno w3)\<rparr>)
               else Inr (0, w3))
         else Inr (- 1, w))"

definition fat_close :: "'g env \<Rightarrow> 32 word \<Rightarrow> 'g world \<Rightarrow> fault + int \<times> 'g world" where
  "fat_close E hnd w = FAT_GET_HND hnd (- 1) (fat_close_body E) w"

subsection \<open>\<^verbatim>\<open>fat_read\<close> and \<^verbatim>\<open>fat_write\<close>\<close>

text \<open>
  The third operand of the \<^verbatim>\<open>&&\<close> in \<^verbatim>\<open>fat_read\<close> reads \<^verbatim>\<open>sf->mnt->fs->csize\<close> and
  \<^verbatim>\<open>sf->mnt->dev->l_block_size\<close>, and is evaluated only when the first two hold; the product
  is computed in \<^verbatim>\<open>int\<close> and converted to \<^verbatim>\<open>DWORD\<close>.  \<open>buffer\<close> is the address of the
  caller's buffer and \<open>sz\<close> the requested size.  The byte count \<open>rs\<close> is returned as a signed
  32-bit value.
\<close>

definition linkmap_wanted :: "'g env \<Rightarrow> nat \<Rightarrow> 'g world \<Rightarrow> fault + bool" where
  "linkmap_wanted E fd w =
     (let sf = fh w fd
      in if cltbl (fil sf) = TblNull \<and> mode sf AND O_MODE_MASK (od E) = O_RDONLY (od E) then
           (case mnt sf of
              None \<Rightarrow> Inl NullDeref
            | Some m \<Rightarrow>
                (case fs (fat_mnt w m) of
                   None \<Rightarrow> Inl NullDeref
                 | Some fso \<Rightarrow>
                     (case dev (fat_mnt w m) of
                        None \<Rightarrow> Inl NullDeref
                      | Some d \<Rightarrow>
                          Inr (word_of_nat (unat (csize fso) * 2 ^ l_block_size d) < fsize (fil sf)))))
         else Inr False)"

definition fat_read_body :: "'g env \<Rightarrow> DWORD \<Rightarrow> DWORD \<Rightarrow> nat \<Rightarrow> 'g world \<Rightarrow> fault + int \<times> 'g world" where
  "fat_read_body E buffer sz fd w =
     (case linkmap_wanted E fd w of
        Inl x \<Rightarrow> Inl x
      | Inr b \<Rightarrow>
          (let w1 = (if b then snd (fat_create_linkmap E fd w) else w)
           in if sz = 0 then Inr (0, w1)
              else
                (let sf = fh w1 fd;
                     ((rc, f, rs), w2) = ext_call (Call_f_read (fil sf) buffer sz)
                                           (f_read (engine E) (fil sf) buffer sz) w1;
                     w3 = store_fil fd f w2
                 in if rc \<noteq> FR_OK then Inr (- 1, w3\<lparr>errno := fatfs_set_errno rc (errno w3)\<rparr>)
                    else Inr (sint rs, w3))))"

definition fat_read :: "'g env \<Rightarrow> 32 word \<Rightarrow> DWORD \<Rightarrow> DWORD \<Rightarrow> 'g world \<Rightarrow> fault + int \<times> 'g world" where
  "fat_read E hnd buffer sz w = FAT_GET_HND hnd (- 1) (fat_read_body E buffer sz) w"

definition fat_write_body :: "'g env \<Rightarrow> DWORD \<Rightarrow> DWORD \<Rightarrow> nat \<Rightarrow> 'g world \<Rightarrow> fault + int \<times> 'g world" where
  "fat_write_body E buffer cnt fd w =
     (let sf = fh w fd;
          ((rc, f, bw), w2) = ext_call (Call_f_write (fil sf) buffer cnt)
                                (f_write (engine E) (fil sf) buffer cnt) w;
          w3 = store_fil fd f w2
      in if rc \<noteq> FR_OK then Inr (- 1, w3\<lparr>errno := fatfs_set_errno rc (errno w3)\<rparr>)
         else Inr (sint bw, w3))"

definition fat_write :: "'g env \<Rightarrow> 32 word \<Rightarrow> DWORD \<Rightarrow> DWORD \<Rightarrow> 'g world \<Rightarrow> fault + int \<times> 'g world" where
  "fat_write E hnd buffer cnt w = FAT_GET_HND hnd (- 1) (fat_write_body E buffer cnt) w"

subsection \<open>\<^verbatim>\<open>fat_tell\<close>, \<^verbatim>\<open>fat_seek\<close>, \<^verbatim>\<open>fat_total\<close>\<close>

text \<open>
  \<^verbatim>\<open>off_t\<close> is the 32-bit \<^verbatim>\<open>long\<close> of the target, so positions are returned as signed 32-bit
  values and \<open>fptr + offset\<close> wraps.  \<^verbatim>\<open>fat_total\<close> returns a \<^verbatim>\<open>size_t\<close>: its failure value
  \<open>- 1\<close> is the largest 32-bit number.
\<close>

definition fat_tell_body :: "nat \<Rightarrow> 'g world \<Rightarrow> fault + int \<times> 'g world" where
  "fat_tell_body fd w = Inr (sint (fptr (fil (fh w fd))), w)"

definition fat_tell :: "32 word \<Rightarrow> 'g world \<Rightarrow> fault + int \<times> 'g world" where
  "fat_tell hnd w = FAT_GET_HND hnd (- 1) fat_tell_body w"

definition fat_seek_body :: "'g env \<Rightarrow> 32 word \<Rightarrow> int \<Rightarrow> nat \<Rightarrow> 'g world \<Rightarrow> fault + int \<times> 'g world" where
  "fat_seek_body E offset whence fd w =
     (let sf = fh w fd
      in case (if whence = SEEK_SET (cd E) then Some offset
               else if whence = SEEK_CUR (cd E) then Some (fptr (fil sf) + offset)
               else if whence = SEEK_END (cd E) then Some (fsize (fil sf) + offset)
               else None) of
           None \<Rightarrow> Inr (- 1, w\<lparr>errno := EINVAL\<rparr>)
         | Some off \<Rightarrow>
             (let (rc, w1) = call_f_lseek E fd off w
              in if rc \<noteq> FR_OK then Inr (- 1, w1\<lparr>errno := fatfs_set_errno rc (errno w1)\<rparr>)
                 else Inr (sint (fptr (fil (fh w1 fd))), w1)))"

definition fat_seek :: "'g env \<Rightarrow> 32 word \<Rightarrow> 32 word \<Rightarrow> int \<Rightarrow> 'g world \<Rightarrow> fault + int \<times> 'g world" where
  "fat_seek E hnd offset whence w = FAT_GET_HND hnd (- 1) (fat_seek_body E offset whence) w"

definition fat_total_body :: "nat \<Rightarrow> 'g world \<Rightarrow> fault + DWORD \<times> 'g world" where
  "fat_total_body fd w = Inr (fsize (fil (fh w fd)), w)"

definition fat_total :: "32 word \<Rightarrow> 'g world \<Rightarrow> fault + DWORD \<times> 'g world" where
  "fat_total hnd w = FAT_GET_HND hnd (- 1) fat_total_body w"

subsection \<open>\<^verbatim>\<open>fat_readdir\<close>, \<^verbatim>\<open>fat_rewinddir\<close>\<close>

text \<open>
  The engine writes the long name through \<^verbatim>\<open>inf.lfname\<close>, which points at the name of the
  slot's directory entry; \<open>fi_lfname\<close> is what it wrote there.  The result is the pointer to
  that entry, or \<open>None\<close> for \<^verbatim>\<open>NULL\<close>.
\<close>

definition fat_readdir_body :: "'g env \<Rightarrow> nat \<Rightarrow> 'g world \<Rightarrow> fault + dirent_t option \<times> 'g world" where
  "fat_readdir_body E fd w =
     (let w0 = set_sf fd ((fh w fd)\<lparr>dent := zero_dirent\<rparr>) w;
          ((rc, d, inf), w1) = ext_call (Call_f_readdir (dir (fh w0 fd)))
                                 (f_readdir (engine E) (dir (fh w0 fd))) w0;
          w2 = set_sf fd ((fh w1 fd)\<lparr>dir := d, dent := zero_dirent\<lparr>d_name := fi_lfname inf\<rparr>\<rparr>) w1
      in if rc \<noteq> FR_OK then Inr (None, w2\<lparr>errno := fatfs_set_errno rc (errno w2)\<rparr>)
         else if fi_fname inf = [] then Inr (None, w2)
         else
           (let de = (dent (fh w2 fd))
                       \<lparr>d_name := (if fi_lfname inf = [] then take 12 (fi_fname inf) else fi_lfname inf),
                        d_time := uint (fi_ftime inf)\<rparr>;
                de1 = (if fi_fattrib inf AND AM_DIR (od E) \<noteq> 0
                       then de\<lparr>d_attr := O_DIR (od E), d_size := - 1\<rparr>
                       else de\<lparr>d_attr := 0, d_size := sint (fi_fsize inf)\<rparr>)
            in Inr (Some de1, set_sf fd ((fh w2 fd)\<lparr>dent := de1\<rparr>) w2)))"

definition fat_readdir :: "'g env \<Rightarrow> 32 word \<Rightarrow> 'g world \<Rightarrow> fault + dirent_t option \<times> 'g world" where
  "fat_readdir E hnd w = FAT_GET_HND hnd None (fat_readdir_body E) w"

definition fat_rewinddir_body :: "'g env \<Rightarrow> nat \<Rightarrow> 'g world \<Rightarrow> fault + int \<times> 'g world" where
  "fat_rewinddir_body E fd w =
     (let ((rc, d), w1) = ext_call (Call_f_rewinddir (dir (fh w fd)))
                            (f_rewinddir (engine E) (dir (fh w fd))) w;
          w2 = set_sf fd ((fh w1 fd)\<lparr>dir := d\<rparr>) w1
      in if rc \<noteq> FR_OK then Inr (- 1, w2\<lparr>errno := fatfs_set_errno rc (errno w2)\<rparr>)
         else Inr (0, w2))"

definition fat_rewinddir :: "'g env \<Rightarrow> 32 word \<Rightarrow> 'g world \<Rightarrow> fault + int \<times> 'g world" where
  "fat_rewinddir E hnd w = FAT_GET_HND hnd (- 1) (fat_rewinddir_body E) w"

section \<open>Block device router\<close>

text \<open>
  The macro \<^verbatim>\<open>FAT_GET_MOUNT\<close>: the mount slot of drive \<open>pdrv\<close>, or the early return of
  \<^verbatim>\<open>STA_NOINIT\<close>.
\<close>

definition FAT_GET_MOUNT :: "'g env \<Rightarrow> BYTE \<Rightarrow> 'g world \<Rightarrow> nat option" where
  "FAT_GET_MOUNT E pdrv w =
     (if unat pdrv < MAX_FAT_MOUNTS E \<and> dev (fat_mnt w (unat pdrv)) \<noteq> None
      then Some (unat pdrv) else None)"

text \<open>
  \<^verbatim>\<open>disk_read\<close>.  \<open>read_route\<close> is the choice of the device and of the destination made
  before the transfer; the branch on the cluster size exists only in a build with
  \<^verbatim>\<open>FATFS_USE_DMA_BUF\<close>, and reads \<^verbatim>\<open>mnt->fs->csize\<close>.  The function does not test
  \<^verbatim>\<open>mnt->dmabuf\<close>, which is \<^verbatim>\<open>NULL\<close> (address 0) when the allocation at mount failed: the
  null pointer is then handed to the device as the destination of the transfer and to
  \<^verbatim>\<open>memcpy\<close> as its source, a null dereference.  The copy out of the scratch buffer is
  recorded in the trace.
\<close>

definition read_route :: "'g env \<Rightarrow> fatfs_mnt_t \<Rightarrow> kos_blockdev_t \<Rightarrow> DWORD \<Rightarrow> DWORD \<Rightarrow> fault + kos_blockdev_t \<times> DWORD" where
  "read_route E m pio buff count =
     (case dev_dma m of
        None \<Rightarrow> Inr (pio, buff)
      | Some dma \<Rightarrow>
          if 1 < count then
            (if buff AND 31 = 0 then Inr (dma, buff)
             else if FATFS_USE_DMA_BUF E then
               (case fs m of
                  None \<Rightarrow> Inl NullDeref
                | Some fso \<Rightarrow> if count \<le> ucast (csize fso) then Inr (dma, dmabuf m) else Inr (pio, buff))
             else Inr (pio, buff))
          else Inr (pio, buff))"

definition disk_read :: "'g env \<Rightarrow> BYTE \<Rightarrow> DWORD \<Rightarrow> DWORD \<Rightarrow> DWORD \<Rightarrow> 'g world \<Rightarrow> fault + DRESULT \<times> 'g world" where
  "disk_read E pdrv buff sector count w =
     (case FAT_GET_MOUNT E pdrv w of
        None \<Rightarrow> Inr (STA_NOINIT, w)
      | Some i \<Rightarrow>
          (case dev (fat_mnt w i) of
             None \<Rightarrow> Inl NullDeref
           | Some pio \<Rightarrow>
               (case read_route E (fat_mnt w i) pio buff count of
                  Inl x \<Rightarrow> Inl x
                | Inr (d, dest) \<Rightarrow>
                    (let (rv, w1) = ext_call (Call_read_blocks d sector count dest)
                                      (read_blocks (host E) d sector count dest) w
                     in if FATFS_USE_DMA_BUF E \<and> dest \<noteq> buff \<and> dest = 0 then Inl NullDeref
                        else
                          (let w2 = (if FATFS_USE_DMA_BUF E \<and> dest \<noteq> buff
                                     then w1\<lparr>trace := trace w1 @ [Call_memcpy buff dest (push_bit (l_block_size d) count)]\<rparr>
                                     else w1)
                           in Inr (if rv < 0 then (if errno w2 = EOVERFLOW then RES_PARERR else RES_ERROR)
                                   else RES_OK, w2))))))"

text \<open>
  \<^verbatim>\<open>disk_write\<close>.  The block that would choose the DMA device is under \<^verbatim>\<open>#if 0\<close>: the
  device is always \<^verbatim>\<open>mnt->dev\<close> and the source always the caller's buffer.
\<close>

definition disk_write :: "'g env \<Rightarrow> BYTE \<Rightarrow> DWORD \<Rightarrow> DWORD \<Rightarrow> DWORD \<Rightarrow> 'g world \<Rightarrow> fault + DRESULT \<times> 'g world" where
  "disk_write E pdrv buff sector count w =
     (case FAT_GET_MOUNT E pdrv w of
        None \<Rightarrow> Inr (STA_NOINIT, w)
      | Some i \<Rightarrow>
          (case dev (fat_mnt w i) of
             None \<Rightarrow> Inl NullDeref
           | Some pio \<Rightarrow>
               (let (rv, w1) = ext_call (Call_write_blocks pio sector count buff)
                                 (write_blocks (host E) pio sector count buff) w
                in Inr (if rv < 0 then (if errno w1 = EOVERFLOW then RES_PARERR else RES_ERROR)
                        else RES_OK, w1))))"

text \<open>
  \<^verbatim>\<open>disk_ioctl\<close>.  What the function stores through \<^verbatim>\<open>buff\<close> is part of its result.
\<close>

datatype out_data = Out_none | Out_dwords "DWORD list" | Out_ushort "16 word" | Out_ulong DWORD

definition disk_ioctl :: "'g env \<Rightarrow> BYTE \<Rightarrow> BYTE \<Rightarrow> 'g world \<Rightarrow> fault + (DRESULT \<times> out_data) \<times> 'g world" where
  "disk_ioctl E pdrv cmd w =
     (case FAT_GET_MOUNT E pdrv w of
        None \<Rightarrow> Inr ((STA_NOINIT, Out_none), w)
      | Some i \<Rightarrow>
          (case dev (fat_mnt w i) of
             None \<Rightarrow> Inl NullDeref
           | Some d \<Rightarrow>
               if cmd = CTRL_SYNC (cd E) then
                 Inr ((RES_OK, Out_none), snd (ext_call (Call_flush d) (flush (host E) d) w))
               else if cmd = GET_SECTOR_COUNT (cd E) then
                 (let (n, w1) = ext_call (Call_count_blocks d) (count_blocks (host E) d) w
                  in Inr ((RES_OK, Out_ulong n), w1))
               else if cmd = GET_SECTOR_SIZE (cd E) then
                 Inr ((RES_OK, Out_ushort (word_of_nat (2 ^ l_block_size d))), w)
               else if cmd = GET_BLOCK_SIZE (cd E) then
                 Inr ((RES_OK, Out_ushort (word_of_nat (2 ^ l_block_size d))), w)
               else if cmd = CTRL_TRIM (cd E) then Inr ((RES_OK, Out_none), w)
               else Inr ((RES_PARERR, Out_none), w)))"

section \<open>Descriptor operations on the engine's objects\<close>

text \<open>
  \<^verbatim>\<open>fat_ioctl\<close>.  \<open>data\<close> is the address taken from the argument list.  The first and the
  last case read \<^verbatim>\<open>sf->fil.fs->drv\<close>; \<^verbatim>\<open>clust2sect\<close> reads the work area it is given.  In the
  link-map case the cells copied to the caller are the first \<^verbatim>\<open>cltbl[0]\<close> cells of the
  buffer \<open>cltbl\<close> points to.
\<close>

definition fat_ioctl_body :: "'g env \<Rightarrow> int \<Rightarrow> DWORD \<Rightarrow> nat \<Rightarrow> 'g world \<Rightarrow> fault + (int \<times> out_data) \<times> 'g world" where
  "fat_ioctl_body E cmd data fd w =
     (let sf = fh w fd
      in if cmd = FATFS_IOCTL_GET_BOOT_SECTOR_DATA (cd E) then
           (case fil_fs (fil sf) of
              None \<Rightarrow> Inl NullDeref
            | Some v \<Rightarrow>
                (case disk_read E (drv v) data 0 1 w of
                   Inl x \<Rightarrow> Inl x
                 | Inr (rc, w1) \<Rightarrow> Inr ((if rc = RES_OK then 0 else - 1, Out_none), w1)))
         else if cmd = FATFS_IOCTL_GET_FD_LBA (cd E) then
           (case fil_fs (fil sf) of
              None \<Rightarrow> Inl NullDeref
            | Some v \<Rightarrow>
                (let lba = clust2sect (engine E) v (sclust (fil sf))
                 in if 0 < lba then Inr ((0, Out_dwords [lba]), w) else Inr ((- 1, Out_none), w)))
         else if cmd = FATFS_IOCTL_GET_FD_LINK_MAP (cd E) then
           (let (rc, w1) = fat_create_linkmap E fd w
            in if rc = FR_OK then
                 (case cltbl_buf w1 (fh w1 fd) of
                    [] \<Rightarrow> Inl OutOfBounds
                  | c0 # cs \<Rightarrow>
                      if unat c0 \<le> length (c0 # cs)
                      then Inr ((0, Out_dwords (take (unat c0) (c0 # cs))), w1)
                      else Inl OutOfBounds)
               else Inr ((0, Out_dwords [0]), w1))
         else
           (case fil_fs (fil sf) of
              None \<Rightarrow> Inl NullDeref
            | Some v \<Rightarrow>
                (case disk_ioctl E (drv v) (word_of_int cmd) w of
                   Inl x \<Rightarrow> Inl x
                 | Inr ((rc, out), w1) \<Rightarrow> Inr ((if rc = RES_OK then 0 else - 1, out), w1))))"

definition fat_ioctl :: "'g env \<Rightarrow> 32 word \<Rightarrow> int \<Rightarrow> DWORD \<Rightarrow> 'g world \<Rightarrow> fault + (int \<times> out_data) \<times> 'g world" where
  "fat_ioctl E hnd cmd data w = FAT_GET_HND hnd (- 1, Out_none) (fat_ioctl_body E cmd data) w"

definition fat_complete_body :: "'g env \<Rightarrow> nat \<Rightarrow> 'g world \<Rightarrow> fault + int \<times> 'g world" where
  "fat_complete_body E fd w =
     (let (rc, w1) = call_f_sync E fd w
      in if rc \<noteq> FR_OK then Inr (- 1, w1\<lparr>errno := fatfs_set_errno rc (errno w1)\<rparr>)
         else Inr (0, w1))"

definition fat_complete :: "'g env \<Rightarrow> 32 word \<Rightarrow> 'g world \<Rightarrow> fault + int \<times> 'g world" where
  "fat_complete E hnd w = FAT_GET_HND hnd (- 1) (fat_complete_body E) w"

definition fat_fcntl_body :: "'g env \<Rightarrow> int \<Rightarrow> nat \<Rightarrow> 'g world \<Rightarrow> fault + int \<times> 'g world" where
  "fat_fcntl_body E cmd fd w =
     (if cmd = F_GETFL (cd E) then Inr (sint (mode (fh w fd)), w)
      else if cmd = F_SETFL (cd E) \<or> cmd = F_GETFD (cd E) \<or> cmd = F_SETFD (cd E) then Inr (0, w)
      else Inr (- 1, w\<lparr>errno := EINVAL\<rparr>))"

definition fat_fcntl :: "'g env \<Rightarrow> 32 word \<Rightarrow> int \<Rightarrow> 'g world \<Rightarrow> fault + int \<times> 'g world" where
  "fat_fcntl E hnd cmd w = FAT_GET_HND hnd (- 1) (fat_fcntl_body E cmd) w"

text \<open>
  \<^verbatim>\<open>fat_fstat\<close> reads \<^verbatim>\<open>sf->mnt->dev->l_block_size\<close> before it looks at the type of the
  handle.  The structure it fills is returned with the result; nothing is stored when the
  macro returns early.
\<close>

definition fat_fstat_body :: "'g env \<Rightarrow> nat \<Rightarrow> 'g world \<Rightarrow> fault + (int \<times> stat_t option) \<times> 'g world" where
  "fat_fstat_body E fd w =
     (let sf = fh w fd
      in case mnt sf of
           None \<Rightarrow> Inl NullDeref
         | Some m \<Rightarrow>
             (case dev (fat_mnt w m) of
                None \<Rightarrow> Inl NullDeref
              | Some d \<Rightarrow>
                  (let st = \<lparr>st_dev = d, st_isdir = False, st_nlink = 1, st_size = 0,
                             st_blksize = 2 ^ l_block_size d, st_blocks = 0\<rparr>
                   in if ftype sf = STAT_TYPE_DIR (cd E)
                      then Inr ((0, Some (st\<lparr>st_isdir := True, st_size := - 1\<rparr>)), w)
                      else Inr ((0, Some (st\<lparr>st_size := sint (fsize (fil sf)),
                                   st_blocks := uint (drop_bit (l_block_size d) (fsize (fil sf)))
                                     + (if fsize (fil sf) AND (word_of_nat (2 ^ l_block_size d) - 1) \<noteq> 0
                                        then 1 else 0)\<rparr>)), w))))"

definition fat_fstat :: "'g env \<Rightarrow> 32 word \<Rightarrow> 'g world \<Rightarrow> fault + (int \<times> stat_t option) \<times> 'g world" where
  "fat_fstat E hnd w = FAT_GET_HND hnd (- 1, None) (fat_fstat_body E) w"

section \<open>Mount registry\<close>

text \<open>
  \<^verbatim>\<open>snprintf(.., "%d:", mnt->dev_id)\<close>: the decimal digits of a byte, then a colon.
\<close>

definition digit_char :: "nat \<Rightarrow> char" where
  "digit_char k = char_of (48 + k)"

definition decimal :: "nat \<Rightarrow> string" where
  "decimal n =
     (if n < 10 then [digit_char n]
      else if n < 100 then [digit_char (n div 10), digit_char (n mod 10)]
      else [digit_char (n div 100), digit_char (n div 10 mod 10), digit_char (n mod 10)])"

definition upd_mnt :: "nat \<Rightarrow> (fatfs_mnt_t \<Rightarrow> fatfs_mnt_t) \<Rightarrow> 'g world \<Rightarrow> 'g world" where
  "upd_mnt i f w = w\<lparr>fat_mnt := (fat_mnt w)(i := f (fat_mnt w i))\<rparr>"

definition call_shutdown :: "'g env \<Rightarrow> kos_blockdev_t \<Rightarrow> 'g world \<Rightarrow> 'g world" where
  "call_shutdown E d w = snd (ext_call (Call_shutdown d) (shutdown (host E) d) w)"

text \<open>\<^verbatim>\<open>fs_fat_free\<close>; \<open>None\<close> is the null pointer.\<close>

definition fs_fat_free :: "'g env \<Rightarrow> nat option \<Rightarrow> 'g world \<Rightarrow> 'g world" where
  "fs_fat_free E mo w =
     (case mo of
        None \<Rightarrow> w
      | Some i \<Rightarrow>
          (let m = fat_mnt w i;
               w1 = (if vfsh m \<noteq> None then w\<lparr>trace := trace w @ [Call_free_obj Obj_vfsh]\<rparr> else w);
               w2 = (if fs m \<noteq> None then w1\<lparr>trace := trace w1 @ [Call_free_obj Obj_fs]\<rparr> else w1);
               w3 = (case dev m of None \<Rightarrow> w2 | Some d \<Rightarrow> call_shutdown E d w2);
               w4 = (case dev_dma m of None \<Rightarrow> w3 | Some d \<Rightarrow> call_shutdown E d w3);
               w5 = (if FATFS_USE_DMA_BUF E \<and> dmabuf m \<noteq> 0
                     then w4\<lparr>trace := trace w4 @ [Call_free_obj Obj_dmabuf]\<rparr> else w4)
           in w5\<lparr>fat_mnt := (fat_mnt w5)(i := zero_mnt)\<rparr>))"

text \<open>
  \<^verbatim>\<open>fs_fat_mount\<close>, in three parts: the search for a free slot and the start of the devices,
  the two allocations and the engine's mount, and the rest (scratch buffer, free space,
  registration), which gets the handler, the work area and the device the earlier parts
  have stored in the slot.  The free-space figures are only logged.  The work area is filled
  by \<^verbatim>\<open>f_mount\<close>; before that call its contents are not read.
\<close>

fun find_free_mnt :: "(nat \<Rightarrow> fatfs_mnt_t) \<Rightarrow> nat \<Rightarrow> nat \<Rightarrow> nat option" where
  "find_free_mnt tab i 0 = None"
| "find_free_mnt tab i (Suc n) = (if dev (tab i) = None then Some i else find_free_mnt tab (Suc i) n)"

definition fs_fat_mount_finish ::
  "'g env \<Rightarrow> nat \<Rightarrow> vfs_handler_t \<Rightarrow> FATFS \<Rightarrow> kos_blockdev_t \<Rightarrow> 'g world \<Rightarrow> int \<times> 'g world" where
  "fs_fat_mount_finish E i h v d w =
     (let m = fat_mnt w i;
          w1 = (if FATFS_USE_DMA_BUF E \<and> dev_dma m \<noteq> None then
                  (let n = (unat (csize v) * 2 ^ l_block_size d) mod 2 ^ 32;
                       (p, w') = ext_call (Call_memalign n) (memalign (host E) n) w
                   in upd_mnt i (\<lambda>m. m\<lparr>dmabuf := p\<rparr>) w')
                else w);
          w2 = snd (ext_call (Call_f_getfree (dev_path m)) (f_getfree (engine E) (dev_path m)) w1);
          w3 = snd (ext_call (Call_count_blocks d) (count_blocks (host E) d) w2);
          (r, w4) = ext_call (Call_nmmgr_handler_add h) (nmmgr_handler_add (host E) h) w3
      in if r \<noteq> 0 then (- 1, fs_fat_free E (Some i) w4) else (0, w4))"

definition fs_fat_mount_objs :: "'g env \<Rightarrow> string \<Rightarrow> kos_blockdev_t \<Rightarrow> nat \<Rightarrow> 'g world \<Rightarrow> int \<times> 'g world" where
  "fs_fat_mount_objs E mp dev_pio i w =
     (let (ok, w1) = ext_call (Call_malloc Obj_vfsh) (malloc (host E) Obj_vfsh) w
      in if \<not> ok then (- 1, fs_fat_free E (Some i) w1)
         else
           (let h = \<lparr>pathname = mp, privdata = Some i\<rparr>;
                w2 = upd_mnt i (\<lambda>m. m\<lparr>vfsh := Some h\<rparr>) w1;
                (ok, w3) = ext_call (Call_malloc Obj_fs) (malloc (host E) Obj_fs) w2
            in if \<not> ok then (- 1, fs_fat_free E (Some i) w3)
               else
                 (let path = decimal (unat (dev_id (fat_mnt w3 i))) @ '':'';
                      w4 = upd_mnt i (\<lambda>m. m\<lparr>dev_path := path\<rparr>) w3;
                      ((rc, v), w5) = ext_call (Call_f_mount path) (f_mount (engine E) path) w4;
                      w6 = upd_mnt i (\<lambda>m. m\<lparr>fs := Some v\<rparr>) w5
                  in if rc \<noteq> FR_OK
                     then (- 1, fs_fat_free E (Some i) (w6\<lparr>errno := fatfs_set_errno rc (errno w6)\<rparr>))
                     else fs_fat_mount_finish E i h v dev_pio w6)))"

definition fs_fat_mount ::
  "'g env \<Rightarrow> string \<Rightarrow> kos_blockdev_t \<Rightarrow> kos_blockdev_t option \<Rightarrow> int \<Rightarrow> 'g world \<Rightarrow> int \<times> 'g world" where
  "fs_fat_mount E mp dev_pio dev_dma' part w =
     (if \<not> initted w then (- 1, w)
      else
        (case find_free_mnt (fat_mnt w) 0 (MAX_FAT_MOUNTS E) of
           None \<Rightarrow> (- 1, fs_fat_free E None w)
         | Some i \<Rightarrow>
             (let w1 = w\<lparr>fat_mnt := (fat_mnt w)(i := zero_mnt\<lparr>dev_id := word_of_nat i\<rparr>)\<rparr>;
                  (r, w2) = ext_call (Call_init dev_pio) (init (host E) dev_pio) w1
              in if r < 0 then (- 1, fs_fat_free E (Some i) w2)
                 else
                   (let w3 = upd_mnt i (\<lambda>m. m\<lparr>dev := Some dev_pio, dev_dma := dev_dma'\<rparr>) w2;
                        w4 = (case dev_dma' of
                                None \<Rightarrow> w3
                              | Some dd \<Rightarrow>
                                  (let (r, w') = ext_call (Call_init dd) (init (host E) dd) w3
                                   in if r < 0 then upd_mnt i (\<lambda>m. m\<lparr>dev_dma := None\<rparr>) w' else w'));
                        k = unat (dev_id (fat_mnt w4 i));
                        w5 = w4\<lparr>VolToPart := (VolToPart w4)(k := (dev_id (fat_mnt w4 i), word_of_int (part + 1)))\<rparr>
                    in fs_fat_mount_objs E mp dev_pio i w5))))"

text \<open>
  \<^verbatim>\<open>fs_fat_unmount\<close> and \<^verbatim>\<open>fs_fat_is_mounted\<close> run the same loop over the table: the first slot
  with a handler whose path name equals \<open>mp\<close>.
\<close>

fun find_mount :: "(nat \<Rightarrow> fatfs_mnt_t) \<Rightarrow> string \<Rightarrow> nat \<Rightarrow> nat \<Rightarrow> (nat \<times> vfs_handler_t) option" where
  "find_mount tab mp i 0 = None"
| "find_mount tab mp i (Suc n) =
     (case vfsh (tab i) of
        None \<Rightarrow> find_mount tab mp (Suc i) n
      | Some h \<Rightarrow> if mp = pathname h then Some (i, h) else find_mount tab mp (Suc i) n)"

definition fs_fat_unmount :: "'g env \<Rightarrow> string \<Rightarrow> 'g world \<Rightarrow> int \<times> 'g world" where
  "fs_fat_unmount E mp w =
     (case find_mount (fat_mnt w) mp 0 (MAX_FAT_MOUNTS E) of
        Some (i, h) \<Rightarrow>
          (let w1 = snd (ext_call (Call_nmmgr_handler_remove h) (nmmgr_handler_remove (host E) h) w)
           in (0, fs_fat_free E (Some i) w1))
      | None \<Rightarrow> (- 1, w\<lparr>errno := ENOENT\<rparr>))"

definition fs_fat_is_mounted :: "'g env \<Rightarrow> string \<Rightarrow> 'g world \<Rightarrow> int" where
  "fs_fat_is_mounted E mp w =
     (case find_mount (fat_mnt w) mp 0 (MAX_FAT_MOUNTS E) of
        Some (i, h) \<Rightarrow> int i + 1
      | None \<Rightarrow> 0)"

definition fs_fat_init :: "'g world \<Rightarrow> int \<times> 'g world" where
  "fs_fat_init w =
     (if initted w then (0, w)
      else (0, w\<lparr>fat_mnt := (\<lambda>i. zero_mnt), fh := (\<lambda>i. zero_fatfs), initted := True\<rparr>))"

section \<open>Device discovery\<close>

text \<open>
  \<^verbatim>\<open>fs_fat_mount_sd\<close> and \<^verbatim>\<open>fs_fat_mount_ide\<close> (\<^verbatim>\<open>dc_bdev.c\<close>).  The drivers fill the sector
  buffer of 512 bytes and the device structures they are given; \<open>fitb\<close> cuts or pads what
  a driver returns to the size of the buffer.  The body of each \<^verbatim>\<open>for\<close> loop is a function
  of the partition number, and \<^verbatim>\<open>continue\<close> is its return.
\<close>

definition fitb :: "nat \<Rightarrow> BYTE list \<Rightarrow> BYTE list" where
  "fitb n xs = take n xs @ replicate (n - length xs) 0"

definition driver_call :: "string \<Rightarrow> nat \<Rightarrow> ('g outside \<Rightarrow> 'r \<times> 'g outside) \<Rightarrow> 'g world \<Rightarrow> 'r \<times> 'g world" where
  "driver_call name arg f w = ext_call (Call_driver name arg) f w"

fun scan_parts :: "(nat \<Rightarrow> 'w \<Rightarrow> fault + 'w) \<Rightarrow> nat list \<Rightarrow> 'w \<Rightarrow> fault + 'w" where
  "scan_parts body [] w = Inr w"
| "scan_parts body (p # ps) w = (case body p w of Inl x \<Rightarrow> Inl x | Inr w1 \<Rightarrow> scan_parts body ps w1)"

definition set_sd_dev :: "nat \<Rightarrow> kos_blockdev_t \<Rightarrow> 'g world \<Rightarrow> 'g world" where
  "set_sd_dev part d w = w\<lparr>sd_dev := map_option (\<lambda>a. a(part := d)) (sd_dev w)\<rparr>"

definition set_g1_dev :: "nat \<Rightarrow> kos_blockdev_t \<Rightarrow> 'g world \<Rightarrow> 'g world" where
  "set_g1_dev part d w = w\<lparr>g1_dev := map_option (\<lambda>a. a(part := d)) (g1_dev w)\<rparr>"

definition set_g1_dev_dma :: "nat \<Rightarrow> kos_blockdev_t \<Rightarrow> 'g world \<Rightarrow> 'g world" where
  "set_g1_dev_dma part d w = w\<lparr>g1_dev_dma := map_option (\<lambda>a. a(part := d)) (g1_dev_dma w)\<rparr>"

definition sd_blockdev_for_device :: "'g env \<Rightarrow> kos_blockdev_t \<Rightarrow> 'g world \<Rightarrow> (int \<times> kos_blockdev_t) \<times> 'g world" where
  "sd_blockdev_for_device E rv w =
     (let (ok, w1) = ext_call (Call_malloc Obj_devdata) (malloc (host E) Obj_devdata) w
      in if \<not> ok then ((- 1, rv), w1\<lparr>errno := ENOMEM\<rparr>)
         else
           (let (n, w2) = driver_call ''sd_get_size'' 0 (sd_get_size (drivers E)) w1
            in ((0, rv\<lparr>dev_data := Some \<lparr>block_count = n div 512, start_block = 0\<rparr>\<rparr>), w2)))"

definition mount_sd_part :: "'g env \<Rightarrow> BYTE list \<Rightarrow> nat \<Rightarrow> 'g world \<Rightarrow> fault + 'g world" where
  "mount_sd_part E buf part w =
     (case check_partition buf (int part) of
        None \<Rightarrow> Inl OutOfBounds
      | Some c \<Rightarrow>
          if c \<noteq> 0 then Inr w
          else
            (let ((r, d, partition_type), w1) =
                   driver_call ''sd_blockdev_for_partition'' part
                     (sd_blockdev_for_partition (drivers E) part) w;
                 w2 = set_sd_dev part d w1
             in if r \<noteq> 0 then Inr w2
                else
                  (let path = (if part = 0 then ''/sd'' else ''sd'' @ decimal part);
                       fat_part = is_fat_partition partition_type
                   in if fat_part \<noteq> 0 then
                        (let (r, w3) = fs_fat_init w2
                         in if r \<noteq> 0 then Inr (call_shutdown E d w3)
                            else
                              (let w4 = call_shutdown E d w3;
                                   ((r, d1), w5) = sd_blockdev_for_device E d w4;
                                   w6 = set_sd_dev part d1 w5
                               in if r \<noteq> 0 then Inr w6
                                  else
                                    (let (r, w7) = fs_fat_mount E path d1 None (int part) w6
                                     in if r \<noteq> 0 then Inr (call_shutdown E d1 w7) else Inr w7)))
                      else Inr (call_shutdown E d w2))))"

definition fs_fat_mount_sd :: "'g env \<Rightarrow> 'g world \<Rightarrow> fault + int \<times> 'g world" where
  "fs_fat_mount_sd E w =
     (let (r, w1) = driver_call ''sd_init'' 0 (sd_init (drivers E)) w
      in if r \<noteq> 0 then Inr (- 1, snd (driver_call ''scif_init'' 0 (scif_init (drivers E)) w1))
         else
           (let w2 = snd (driver_call ''sd_get_size'' 0 (sd_get_size (drivers E)) w1);
                ((r, b), w3) = driver_call ''sd_read_blocks'' 0 (sd_read_blocks (drivers E) 0 1) w2;
                buf = fitb 512 b
            in if r \<noteq> 0 then Inr (- 1, w3)
               else
                 (let (ok, w4) = (case sd_dev w3 of
                                    None \<Rightarrow> ext_call (Call_malloc Obj_devs) (malloc (host E) Obj_devs) w3
                                  | Some a \<Rightarrow> (True, w3))
                  in if \<not> ok then Inr (- 1, w4)
                     else
                       (case scan_parts (mount_sd_part E buf) [0..<MAX_PARTITIONS]
                               (w4\<lparr>sd_dev := Some (\<lambda>i. zero_dev)\<rparr>) of
                          Inl x \<Rightarrow> Inl x
                        | Inr w5 \<Rightarrow> Inr (0, w5)))))"

definition mount_ide_part :: "'g env \<Rightarrow> BYTE list \<Rightarrow> nat \<Rightarrow> 'g world \<Rightarrow> fault + 'g world" where
  "mount_ide_part E buf part w =
     (case check_partition buf (int part) of
        None \<Rightarrow> Inl OutOfBounds
      | Some c \<Rightarrow>
          if c \<noteq> 0 then Inr w
          else
            (let ((r, d, partition_type), w1) =
                   driver_call ''g1_ata_blockdev_for_partition'' part
                     (g1_ata_blockdev_for_partition (drivers E) part) w;
                 w2 = set_g1_dev part d w1
             in if r \<noteq> 0 then Inr w2
                else
                  (let path = (if part = 0 then ''/ide'' else ''/ide'' @ decimal part);
                       fat_part = is_fat_partition partition_type
                   in if fat_part \<noteq> 0 then
                        (let (r, w3) = fs_fat_init w2
                         in if r \<noteq> 0 then Inr (call_shutdown E d w3)
                            else
                              (let w4 = call_shutdown E d w3;
                                   ((r, d1), w5) = driver_call ''g1_ata_blockdev_for_device'' 0
                                                     (g1_ata_blockdev_for_device (drivers E) 0) w4;
                                   w6 = set_g1_dev part d1 w5
                               in if r \<noteq> 0 then Inr w6
                                  else
                                    (let ((r, d2), w7) = driver_call ''g1_ata_blockdev_for_device'' 1
                                                           (g1_ata_blockdev_for_device (drivers E) 1) w6;
                                         w8 = set_g1_dev_dma part d2 w7;
                                         dma = (if r \<noteq> 0 then None else Some d2);
                                         (r, w9) = fs_fat_mount E path d1 dma (int part) w8
                                     in if r \<noteq> 0 then
                                          (let w10 = call_shutdown E d1 w9
                                           in case dma of
                                                None \<Rightarrow> Inr w10
                                              | Some dd \<Rightarrow> Inr (call_shutdown E dd w10))
                                        else Inr w9)))
                      else Inr (call_shutdown E d w2))))"

definition fs_fat_mount_ide :: "'g env \<Rightarrow> 'g world \<Rightarrow> fault + int \<times> 'g world" where
  "fs_fat_mount_ide E w =
     (let (r, w1) = driver_call ''g1_ata_init'' 0 (g1_ata_init (drivers E)) w
      in if r \<noteq> 0 then Inr (- 1, w1)
         else
           (let (lba, w2) = driver_call ''g1_ata_lba_mode'' 0 (g1_ata_lba_mode (drivers E)) w1;
                ((r, b), w3) = (if lba \<noteq> 0
                                then driver_call ''g1_ata_read_lba'' 0 (g1_ata_read_lba (drivers E) 0 1) w2
                                else driver_call ''g1_ata_read_chs'' 0 (g1_ata_read_chs (drivers E)) w2);
                buf = fitb 512 b
            in if r < 0 then Inr (- 1, w3)
               else
                 (let (ok, w5) =
                        (case g1_dev w3 of
                           None \<Rightarrow>
                             (let (ok1, w4) = ext_call (Call_malloc Obj_devs) (malloc (host E) Obj_devs) w3;
                                  (ok2, w4') = ext_call (Call_malloc Obj_devs) (malloc (host E) Obj_devs) w4
                              in (ok1 \<and> ok2,
                                  w4'\<lparr>g1_dev := (if ok1 then Some (\<lambda>i. zero_dev) else None),
                                       g1_dev_dma := (if ok2 then Some (\<lambda>i. zero_dev) else None)\<rparr>))
                         | Some a \<Rightarrow> (g1_dev_dma w3 \<noteq> None, w3))
                  in if \<not> ok then Inr (- 1, w5)
                     else
                       (case scan_parts (mount_ide_part E buf) [0..<MAX_PARTITIONS]
                               (w5\<lparr>g1_dev := Some (\<lambda>i. zero_dev), g1_dev_dma := Some (\<lambda>i. zero_dev)\<rparr>) of
                          Inl x \<Rightarrow> Inl x
                        | Inr w6 \<Rightarrow> Inr (0, w6)))))"

section \<open>The used flag\<close>

text \<open>
  \<open>set_used\<close> writes the \<open>used\<close> flag of slot \<open>fd\<close> and nothing else; \<open>lift_used\<close> and
  \<open>forget_used\<close> do so in the state an operation returns.  Two outcomes that are equal after
  \<open>forget_used fd\<close> differ at most in that flag.
\<close>

definition set_used :: "nat \<Rightarrow> int \<Rightarrow> 'g world \<Rightarrow> 'g world" where
  "set_used fd u w = set_sf fd ((fh w fd)\<lparr>used := u\<rparr>) w"

definition forget_used :: "nat \<Rightarrow> fault + 'r \<times> 'g world \<Rightarrow> fault + 'r \<times> 'g world" where
  "forget_used fd r = map_sum id (apsnd (set_used fd 0)) r"

definition lift_used :: "nat \<Rightarrow> int \<Rightarrow> fault + 'r \<times> 'g world \<Rightarrow> fault + 'r \<times> 'g world" where
  "lift_used fd u r = map_sum id (apsnd (set_used fd u)) r"

text \<open>
  What can be seen of an operation that the guard \<^verbatim>\<open>FAT_GET_HND\<close> has let through to its
  body, started in the state \<open>w\<close>: it ends in a fault of the body, or it returns, and then,
  unless a call has gone to the outside (whose result the body may translate into any
  \<^verbatim>\<open>errno\<close>), \<^verbatim>\<open>errno\<close> is what it was or is the \<^verbatim>\<open>EINVAL\<close> of the body's own check of its
  arguments.  The guard's early return is not of this kind when \<^verbatim>\<open>errno\<close> was not \<^verbatim>\<open>ENFILE\<close>
  already: it calls nothing and sets \<^verbatim>\<open>ENFILE\<close>.
\<close>

definition guard_passed :: "'g world \<Rightarrow> fault + 'r \<times> 'g world \<Rightarrow> bool" where
  "guard_passed w r =
     (case r of
        Inl x \<Rightarrow> True
      | Inr (rv, w') \<Rightarrow> trace w' = trace w \<longrightarrow> errno w' = errno w \<or> errno w' = EINVAL)"

section \<open>Open handles\<close>

text \<open>
  An open handle is a slot in use that \<^verbatim>\<open>fat_open\<close> has typed as a file or as a directory.
  \<^verbatim>\<open>fat_open\<close> zeroes the slot, so a directory handle carries no link map.  A valid handle
  is an open handle whose volume is still mounted: its slot of the mount table has a work
  area and a device.
\<close>

definition open_handle :: "'g env \<Rightarrow> fatfs_t \<Rightarrow> bool" where
  "open_handle E sf \<longleftrightarrow>
     used sf \<noteq> 0 \<and>
     (ftype sf = STAT_TYPE_FILE (cd E) \<or> (ftype sf = STAT_TYPE_DIR (cd E) \<and> cltbl (fil sf) = TblNull))"

definition valid_handle :: "'g env \<Rightarrow> 'g world \<Rightarrow> nat \<Rightarrow> bool" where
  "valid_handle E w fd \<longleftrightarrow>
     open_handle E (fh w fd) \<and>
     (case mnt (fh w fd) of
        None \<Rightarrow> False
      | Some m \<Rightarrow> fs (fat_mnt w m) \<noteq> None \<and> dev (fat_mnt w m) \<noteq> None)"

text \<open>The calls that build a link map: the sentinel seek, the allocation, the release.\<close>

definition is_linkmap_call :: "call \<Rightarrow> bool" where
  "is_linkmap_call c =
     (case c of
        Call_f_lseek f t ofs \<Rightarrow> ofs = CREATE_LINKMAP
      | Call_calloc n \<Rightarrow> True
      | Call_free a \<Rightarrow> True
      | _ \<Rightarrow> False)"


text \<open>
  Modelled from the spec: the engine's contract for the sentinel seek, "build/refresh the
  fast-seek index instead of moving the cursor".  Whatever else the engine answers, the file
  object it returns has the cursor it was given.
\<close>

definition sentinel_keeps_cursor :: "'g env \<Rightarrow> bool" where
  "sentinel_keeps_cursor E \<longleftrightarrow>
     (\<forall>f buf x. case f_lseek (engine E) f buf CREATE_LINKMAP x of
                   ((rc, f1, t), x1) \<Rightarrow> fptr f1 = fptr f)"

section \<open>A concrete environment\<close>

text \<open>
  A small environment on which the model can be run.  Its outside state is one number: the
  number of cells the engine needs for the link map of the file.  The engine opens every
  file with 100000 bytes, moves the cursor where \<^verbatim>\<open>f_lseek\<close> asks, and, asked for the link
  map, writes the needed size into the first cell and reports \<^verbatim>\<open>FR_NOT_ENOUGH_CORE\<close> when
  the buffer is smaller.  The allocator always returns the block at address 7.  The drivers
  find a card whose first partition has type \<open>0x83\<close>, which is not a FAT type.
\<close>

definition demo_od :: open_defs where
  "demo_od = \<lparr>O_MODE_MASK = 3, O_RDONLY = 0, O_WRONLY = 1, O_RDWR = 2, O_TRUNC = 0x400,
     O_APPEND = 8, O_DIR = 0x1000, FA_READ = 1, FA_WRITE = 2, FA_OPEN_EXISTING = 0,
     FA_CREATE_NEW = 4, FA_CREATE_ALWAYS = 8, AM_DIR = 0x10\<rparr>"

definition demo_cd :: cmd_defs where
  "demo_cd = \<lparr>STAT_TYPE_FILE = 1, STAT_TYPE_DIR = 2, SEEK_SET = 0, SEEK_CUR = 1, SEEK_END = 2,
     F_GETFL = 3, F_SETFL = 4, F_GETFD = 1, F_SETFD = 2,
     FATFS_IOCTL_GET_BOOT_SECTOR_DATA = 100, FATFS_IOCTL_GET_FD_LBA = 101,
     FATFS_IOCTL_GET_FD_LINK_MAP = 102,
     CTRL_SYNC = 0, GET_SECTOR_COUNT = 1, GET_SECTOR_SIZE = 2, GET_BLOCK_SIZE = 3, CTRL_TRIM = 4\<rparr>"

definition demo_lseek ::
  "FIL \<Rightarrow> DWORD list \<Rightarrow> DWORD \<Rightarrow> nat outside \<Rightarrow> (FRESULT \<times> FIL \<times> DWORD list) \<times> nat outside" where
  "demo_lseek f buf ofs x =
     (if ofs = CREATE_LINKMAP
      then ((if length buf < snd x then FR_NOT_ENOUGH_CORE else FR_OK, f, buf[0 := word_of_nat (snd x)]), x)
      else ((FR_OK, f\<lparr>fptr := ofs\<rparr>, buf), x))"

definition demo_fs :: FATFS where
  "demo_fs = \<lparr>drv = 0, csize = 8\<rparr>"

definition demo_engine :: "nat engine" where
  "demo_engine = \<lparr>
     f_chdrive = (\<lambda>p x. (FR_OK, x)),
     f_opendir = (\<lambda>d p x. ((FR_OK, 1), x)),
     f_open = (\<lambda>f p m x. ((FR_OK, f\<lparr>fil_fs := Some demo_fs, fsize := 100000, sclust := 2\<rparr>), x)),
     f_sync = (\<lambda>f x. ((FR_OK, f), x)),
     f_lseek = demo_lseek,
     f_close = (\<lambda>f x. ((FR_OK, f\<lparr>fil_fs := None\<rparr>), x)),
     f_closedir = (\<lambda>d x. ((FR_OK, 0), x)),
     f_read = (\<lambda>f b n x. ((FR_OK, f\<lparr>fptr := fptr f + n\<rparr>, n), x)),
     f_write = (\<lambda>f b n x. ((FR_OK, f\<lparr>fptr := fptr f + n\<rparr>, n), x)),
     f_readdir = (\<lambda>d x. ((FR_OK, d + 1,
                    \<lparr>fi_fsize = 0, fi_fdate = 0, fi_ftime = 0, fi_fattrib = 0, fi_fname = [], fi_lfname = []\<rparr>), x)),
     f_rewinddir = (\<lambda>d x. ((FR_OK, 1), x)),
     f_mount = (\<lambda>p x. ((FR_OK, demo_fs), x)),
     f_getfree = (\<lambda>p x. (FR_OK, x)),
     clust2sect = (\<lambda>v c. c + 100)\<rparr>"

definition demo_host :: "nat host" where
  "demo_host = \<lparr>
     calloc = (\<lambda>n x. (Some 7, x)),
     malloc = (\<lambda>obj x. (True, x)),
     memalign = (\<lambda>n x. (0x8000, x)),
     init = (\<lambda>d x. (0, x)),
     shutdown = (\<lambda>d x. (0, x)),
     read_blocks = (\<lambda>d s c b x. (0, x)),
     write_blocks = (\<lambda>d s c b x. (0, x)),
     count_blocks = (\<lambda>d x. (1000, x)),
     flush = (\<lambda>d x. (0, x)),
     nmmgr_handler_add = (\<lambda>h x. (0, x)),
     nmmgr_handler_remove = (\<lambda>h x. (0, x))\<rparr>"

definition demo_pio :: kos_blockdev_t where
  "demo_pio = \<lparr>dev_data = None, l_block_size = 9, dev_ops = 1\<rparr>"

definition demo_dma :: kos_blockdev_t where
  "demo_dma = \<lparr>dev_data = None, l_block_size = 9, dev_ops = 2\<rparr>"

definition linux_sector :: "BYTE list" where
  "linux_sector = signed_sector[0x1C2 := 0x83]"

definition demo_drivers :: "nat drivers" where
  "demo_drivers = \<lparr>
     sd_init = (\<lambda>x. (0, x)),
     scif_init = (\<lambda>x. (0, x)),
     sd_get_size = (\<lambda>x. (512000, x)),
     sd_read_blocks = (\<lambda>s c x. ((0, linux_sector), x)),
     sd_blockdev_for_partition = (\<lambda>p x. ((0, demo_pio, 0x83), x)),
     g1_ata_init = (\<lambda>x. (0, x)),
     g1_ata_lba_mode = (\<lambda>x. (1, x)),
     g1_ata_read_lba = (\<lambda>s c x. ((0, linux_sector), x)),
     g1_ata_read_chs = (\<lambda>x. ((0, linux_sector), x)),
     g1_ata_blockdev_for_partition = (\<lambda>p x. ((0, demo_pio, 0x83), x)),
     g1_ata_blockdev_for_device = (\<lambda>dma x. ((0, if dma = 0 then demo_pio else demo_dma), x))\<rparr>"

definition demo_env :: "nat env" where
  "demo_env = \<lparr>MAX_FAT_MOUNTS = 2, FATFS_USE_DMA_BUF = False, od = demo_od, cd = demo_cd,
     engine = demo_engine, host = demo_host, drivers = demo_drivers\<rparr>"

text \<open>The state after \<^verbatim>\<open>fs_fat_init\<close>: both tables zeroed.\<close>

definition demo_world :: "nat \<Rightarrow> nat world" where
  "demo_world g = \<lparr>errno = NOERR, initted = True, fh = (\<lambda>i. zero_fatfs), fat_mnt = (\<lambda>i. zero_mnt),
     VolToPart = (\<lambda>i. (0, 0)), sd_dev = None, g1_dev = None, g1_dev_dma = None,
     heap = Map.empty, ext = g, trace = []\<rparr>"

text \<open>
  The same state with one volume in slot 0, registered under \<^verbatim>\<open>/ide\<close>, with a PIO and a DMA
  device of 512-byte blocks and clusters of 8 blocks.
\<close>

definition demo_vfs :: vfs_handler_t where
  "demo_vfs = \<lparr>pathname = ''/ide'', privdata = Some 0\<rparr>"

definition demo_mnt :: fatfs_mnt_t where
  "demo_mnt = \<lparr>fs = Some demo_fs, vfsh = Some demo_vfs, dev = Some demo_pio, dev_dma = Some demo_dma,
     dev_stat = 0, dev_id = 0, dev_path = ''0:'', dmabuf = 0x8000\<rparr>"

definition demo_mounted :: "nat \<Rightarrow> nat world" where
  "demo_mounted g = (demo_world g)\<lparr>fat_mnt := (\<lambda>i. zero_mnt)(0 := demo_mnt)\<rparr>"

text \<open>
  States of the concrete environment: a read-only file opened on the mounted volume, and
  the same handle after a read of size 0 has built its link map, in the inline array when
  the engine needs 10 cells and in a block from \<^verbatim>\<open>calloc\<close> when it needs 40.
\<close>

definition demo_file :: "cltbl_ref \<Rightarrow> DWORD list \<Rightarrow> fatfs_t" where
  "demo_file p tbl = \<lparr>fil = \<lparr>fil_fs = Some demo_fs, fsize = 100000, fptr = 0, sclust = 2, cltbl = p, fil_priv = 0\<rparr>,
     dir = 0, ftype = 1, used = 1, mode = 0, lktbl = tbl, dent = zero_dirent, mnt = Some 0\<rparr>"

definition demo_opened :: "nat \<Rightarrow> nat world" where
  "demo_opened g = (demo_mounted g)\<lparr>fh := (\<lambda>i. zero_fatfs)(0 := demo_file TblNull (replicate 32 0)),
     trace := [Call_f_chdrive ''0:'', Call_f_open ''/a.bin'' 1]\<rparr>"

definition demo_linked :: "nat world" where
  "demo_linked = (demo_opened 10)\<lparr>fh := (\<lambda>i. zero_fatfs)(0 := demo_file TblInline ((replicate 32 0)[0 := 10])),
     trace := trace (demo_opened 10)
       @ [Call_f_lseek (fil (demo_file TblInline [])) ((replicate 32 0)[0 := 32]) CREATE_LINKMAP]\<rparr>"

definition demo_mapped :: "nat world" where
  "demo_mapped = (demo_opened 40)\<lparr>fh := (\<lambda>i. zero_fatfs)(0 := demo_file (TblHeap 7) ((replicate 32 0)[0 := 40])),
     heap := [7 \<mapsto> (replicate 40 0)[0 := 40]],
     trace := trace (demo_opened 40)
       @ [Call_f_lseek (fil (demo_file TblInline [])) ((replicate 32 0)[0 := 32]) CREATE_LINKMAP,
          Call_calloc 40,
          Call_f_lseek (fil (demo_file (TblHeap 7) [])) ((replicate 40 0)[0 := 40]) CREATE_LINKMAP]\<rparr>"



text \<open>The concrete environment as a build with the DMA scratch buffer.\<close>

definition demo_env_dmabuf :: "nat env" where
  "demo_env_dmabuf = demo_env\<lparr>FATFS_USE_DMA_BUF := True\<rparr>"

text \<open>The mounted state when the allocation of the scratch buffer had failed.\<close>

definition demo_nobuf :: "nat world" where
  "demo_nobuf = (demo_mounted 0)\<lparr>fat_mnt := (\<lambda>i. zero_mnt)(0 := demo_mnt\<lparr>dmabuf := 0\<rparr>)\<rparr>"

section \<open>Unfolding the concrete environment\<close>

lemmas demo_defs = demo_env_def demo_engine_def demo_host_def demo_drivers_def demo_lseek_def
  demo_world_def demo_mounted_def demo_mnt_def demo_vfs_def demo_fs_def demo_pio_def demo_dma_def
  demo_od_def demo_cd_def zero_fatfs_def zero_FIL_def zero_dirent_def zero_mnt_def zero_dev_def

section \<open>Properties of the error translator\<close>

text \<open>
  Claim C4.  The error translator is defined for every result code.  Each enumerated code
  other than the disk error sets a fixed host error number, whatever \<^verbatim>\<open>errno\<close> held before;
  a code outside the enumeration (below 0 or above 19) sets "no error"; and the disk-error
  code leaves the value the disk-I/O layer stored untouched.
\<close>

theorem fatfs_set_errno_total:
  "fatfs_set_errno FR_OK e = NOERR
   \<and> fatfs_set_errno FR_DISK_ERR e = e
   \<and> fatfs_set_errno FR_INT_ERR e = EFAULT
   \<and> fatfs_set_errno FR_NOT_READY e = ENODEV
   \<and> fatfs_set_errno FR_NO_FILE e = ENOENT
   \<and> fatfs_set_errno FR_NO_PATH e = ENOENT
   \<and> fatfs_set_errno FR_INVALID_NAME e = EINVAL
   \<and> fatfs_set_errno FR_DENIED e = ENOSPC
   \<and> fatfs_set_errno FR_EXIST e = EACCES
   \<and> fatfs_set_errno FR_INVALID_OBJECT e = EBADF
   \<and> fatfs_set_errno FR_WRITE_PROTECTED e = EROFS
   \<and> fatfs_set_errno FR_INVALID_DRIVE e = ENXIO
   \<and> fatfs_set_errno FR_NOT_ENABLED e = EIDRM
   \<and> fatfs_set_errno FR_NO_FILESYSTEM e = EIO
   \<and> fatfs_set_errno FR_MKFS_ABORTED e = EINVAL
   \<and> fatfs_set_errno FR_TIMEOUT e = ETIME
   \<and> fatfs_set_errno FR_LOCKED e = EAGAIN
   \<and> fatfs_set_errno FR_NOT_ENOUGH_CORE e = ENOMEM
   \<and> fatfs_set_errno FR_TOO_MANY_OPEN_FILES e = EMFILE
   \<and> fatfs_set_errno FR_INVALID_PARAMETER e = EINVAL
   \<and> (rc < 0 \<or> 19 < rc \<longrightarrow> fatfs_set_errno rc e = NOERR)
   \<and> (rc \<noteq> FR_DISK_ERR \<longrightarrow> fatfs_set_errno rc e = fatfs_set_errno rc e')"
  by (simp add: fatfs_set_errno_def)

theorem fatfs_set_errno_total_witness:
  "fatfs_set_errno FR_DISK_ERR EOVERFLOW = EOVERFLOW
   \<and> fatfs_set_errno FR_NO_FILESYSTEM EOVERFLOW = EIO
   \<and> (20::int) > 19 \<and> fatfs_set_errno 20 EOVERFLOW = NOERR
   \<and> (- 1::int) < 0 \<and> fatfs_set_errno (- 1) EOVERFLOW = NOERR
   \<and> FR_DENIED \<noteq> FR_DISK_ERR \<and> fatfs_set_errno FR_DENIED EOVERFLOW = fatfs_set_errno FR_DENIED EIO"
  using fatfs_set_errno_total [of EOVERFLOW 20 EIO]
        fatfs_set_errno_total [of EOVERFLOW "- 1" EIO]
        fatfs_set_errno_total [of EOVERFLOW FR_DENIED EIO]
        fatfs_set_errno_total [of EIO FR_DENIED EIO]
  by simp

section \<open>Properties of the partition scanner\<close>

text \<open>
  Claim C9 (classifier).  For every partition-type byte: 0x04 and 0x06 are classified as
  FAT16-style (16), 0x0B and 0x0C as FAT32-style (32), and every other byte, zero included,
  as not FAT (0).
\<close>

theorem is_fat_partition_classes:
  "is_fat_partition 0x04 = 16 \<and> is_fat_partition 0x06 = 16
   \<and> is_fat_partition 0x0B = 32 \<and> is_fat_partition 0x0C = 32
   \<and> is_fat_partition 0 = 0
   \<and> (t \<notin> {0x04, 0x06, 0x0B, 0x0C} \<longrightarrow> is_fat_partition t = 0)"
  by (simp add: is_fat_partition_def)

section \<open>The link-map builder\<close>

lemma call_f_lseek_inline:
  assumes "cltbl (fil (fh w fd)) = TblInline"
    and "f_lseek (engine E) (fil (fh w fd)) (lktbl (fh w fd)) ofs (errno w, ext w) = ((rc, f1, t1), e1, g1)"
  shows "call_f_lseek E fd ofs w =
           (rc, w\<lparr>errno := e1, ext := g1,
                  trace := trace w @ [Call_f_lseek (fil (fh w fd)) (lktbl (fh w fd)) ofs],
                  fh := (fh w)(fd := (fh w fd)\<lparr>fil := f1\<lparr>cltbl := TblInline\<rparr>,
                                              lktbl := fit (length (lktbl (fh w fd))) t1\<rparr>)\<rparr>)"
  using assms by (simp add: call_f_lseek_def ext_call_def set_sf_def cltbl_buf_def Let_def)

lemma call_f_lseek_heap:
  assumes "cltbl (fil (fh w fd)) = TblHeap a" and "heap w a = Some b"
    and "f_lseek (engine E) (fil (fh w fd)) b ofs (errno w, ext w) = ((rc, f1, t1), e1, g1)"
  shows "call_f_lseek E fd ofs w =
           (rc, w\<lparr>errno := e1, ext := g1,
                  trace := trace w @ [Call_f_lseek (fil (fh w fd)) b ofs],
                  fh := (fh w)(fd := (fh w fd)\<lparr>fil := f1\<lparr>cltbl := TblHeap a\<rparr>\<rparr>),
                  heap := (heap w)(a \<mapsto> fit (length b) t1)\<rparr>)"
  using assms by (simp add: call_f_lseek_def ext_call_def set_sf_def cltbl_buf_def Let_def)

lemma clm_first:
  assumes "cltbl (fil (fh w fd)) = TblNull"
    and "f_lseek (engine E) ((fil (fh w fd))\<lparr>cltbl := TblInline\<rparr>) ((replicate 32 0)[0 := 32])
           CREATE_LINKMAP (errno w, ext w) = ((rc1, f1, t1), e1, g1)"
    and "rc1 \<noteq> FR_NOT_ENOUGH_CORE"
  shows "fat_create_linkmap E fd w =
           (rc1, w\<lparr>errno := e1, ext := g1,
                   trace := trace w @ [Call_f_lseek ((fil (fh w fd))\<lparr>cltbl := TblInline\<rparr>)
                                         ((replicate 32 0)[0 := 32]) CREATE_LINKMAP],
                   fh := (fh w)(fd := (fh w fd)\<lparr>lktbl := fit 32 t1,
                                               fil := f1\<lparr>cltbl := (if rc1 = FR_OK then TblInline else TblNull)\<rparr>\<rparr>)\<rparr>)"
  using assms
  by (cases "fh w fd")
     (simp add: fat_create_linkmap_def call_f_lseek_inline [where rc=rc1 and ?f1.0=f1 and ?t1.0=t1 and ?e1.0=e1 and ?g1.0=g1]
        set_sf_def FATFS_LINK_TBL_SIZE_def Let_def)

lemma clm_nomem:
  assumes "cltbl (fil (fh w fd)) = TblNull"
    and "f_lseek (engine E) ((fil (fh w fd))\<lparr>cltbl := TblInline\<rparr>) ((replicate 32 0)[0 := 32])
           CREATE_LINKMAP (errno w, ext w) = ((FR_NOT_ENOUGH_CORE, f1, t1), e1, g1)"
    and "calloc (host E) (unat (fit 32 t1 ! 0)) (e1, g1) = (None, e2, g2)"
  shows "fat_create_linkmap E fd w =
           (FR_NOT_ENOUGH_CORE,
            w\<lparr>errno := e2, ext := g2,
              trace := trace w @ [Call_f_lseek ((fil (fh w fd))\<lparr>cltbl := TblInline\<rparr>)
                                    ((replicate 32 0)[0 := 32]) CREATE_LINKMAP,
                                  Call_calloc (unat (fit 32 t1 ! 0))],
              fh := (fh w)(fd := (fh w fd)\<lparr>lktbl := fit 32 t1, fil := f1\<lparr>cltbl := TblNull\<rparr>\<rparr>)\<rparr>)"
  using assms
  by (simp add: fat_create_linkmap_def
        call_f_lseek_inline [where rc=FR_NOT_ENOUGH_CORE and ?f1.0=f1 and ?t1.0=t1 and ?e1.0=e1 and ?g1.0=g1]
        set_sf_def ext_call_def FATFS_LINK_TBL_SIZE_def Let_def)

lemma clm_retry:
  assumes "cltbl (fil (fh w fd)) = TblNull"
    and "f_lseek (engine E) ((fil (fh w fd))\<lparr>cltbl := TblInline\<rparr>) ((replicate 32 0)[0 := 32])
           CREATE_LINKMAP (errno w, ext w) = ((FR_NOT_ENOUGH_CORE, f1, t1), e1, g1)"
    and "calloc (host E) (unat (fit 32 t1 ! 0)) (e1, g1) = (Some a, e2, g2)"
    and "f_lseek (engine E) (f1\<lparr>cltbl := TblHeap a\<rparr>)
           ((replicate (unat (fit 32 t1 ! 0)) 0)[0 := fit 32 t1 ! 0])
           CREATE_LINKMAP (e2, g2) = ((rc2, f3, t3), e3, g3)"
  shows "fat_create_linkmap E fd w =
           (rc2,
            w\<lparr>errno := e3, ext := g3,
              trace := trace w @ [Call_f_lseek ((fil (fh w fd))\<lparr>cltbl := TblInline\<rparr>)
                                    ((replicate 32 0)[0 := 32]) CREATE_LINKMAP,
                                  Call_calloc (unat (fit 32 t1 ! 0)),
                                  Call_f_lseek (f1\<lparr>cltbl := TblHeap a\<rparr>)
                                    ((replicate (unat (fit 32 t1 ! 0)) 0)[0 := fit 32 t1 ! 0]) CREATE_LINKMAP]
                                 @ (if rc2 = FR_OK then [] else [Call_free a]),
              fh := (fh w)(fd := (fh w fd)\<lparr>lktbl := fit 32 t1,
                                          fil := f3\<lparr>cltbl := (if rc2 = FR_OK then TblHeap a else TblNull)\<rparr>\<rparr>),
              heap := (heap w)(a := (if rc2 = FR_OK then Some (fit (unat (fit 32 t1 ! 0)) t3) else None))\<rparr>)"
  using assms
  by (simp add: fat_create_linkmap_def
        call_f_lseek_inline [where rc=FR_NOT_ENOUGH_CORE and ?f1.0=f1 and ?t1.0=t1 and ?e1.0=e1 and ?g1.0=g1]
        call_f_lseek_heap [where rc=rc2 and ?f1.0=f3 and ?t1.0=t3 and ?e1.0=e3 and ?g1.0=g3 and a=a
                            and b="(replicate (unat (fit 32 t1 ! 0)) 0)[0 := fit 32 t1 ! 0]"]
        set_sf_def ext_call_def FATFS_LINK_TBL_SIZE_def Let_def)

lemma fat_create_linkmap_attached:
  "cltbl (fil (fh w fd)) \<noteq> TblNull \<Longrightarrow> fat_create_linkmap E fd w = (FR_OK, w)"
  by (simp add: fat_create_linkmap_def)

lemma prod5E: "(\<And>a b c d e. x = ((a, b, c), d, e) \<Longrightarrow> P) \<Longrightarrow> P"
  by (cases x) auto

lemma prod3E: "(\<And>a b c. x = (a, b, c) \<Longrightarrow> P) \<Longrightarrow> P"
  by (cases x) auto

lemma first_cell_block: "length ((replicate n 0)[0 := (x::DWORD)]) = n \<and> (0 < n \<longrightarrow> (replicate n 0)[0 := x] ! 0 = x)"
  by simp

text \<open>
  Claim C1.  The link-map builder on the handle in slot \<open>fd\<close>.  If a link map is attached,
  it returns \<^verbatim>\<open>FR_OK\<close> and changes nothing (no call is made).  Otherwise its first call is
  the engine's construction call on the inline buffer of 32 cells whose first cell holds 32.
  If that call does not report \<^verbatim>\<open>FR_NOT_ENOUGH_CORE\<close>, it is the only call, and the map
  stays attached exactly on success.  If it does, one block of \<open>lms\<close> cells is requested,
  \<open>lms\<close> being what the engine wrote into the first cell; when the allocation fails the
  pointer is reset and the failure returned; otherwise the engine is called once more on
  that block, whose first cell holds \<open>lms\<close>, and on failure of this retry the block is
  freed, the pointer reset and the failure returned.  There is never a third engine call.
\<close>

theorem fat_create_linkmap_protocol:
  "(let sf = fh w fd;
        f0 = (fil sf)\<lparr>cltbl := TblInline\<rparr>;
        b0 = (replicate 32 0)[0 := 32];
        c1 = Call_f_lseek f0 b0 CREATE_LINKMAP;
        ((rc1, f1, t1), o1) = f_lseek (engine E) f0 b0 CREATE_LINKMAP (errno w, ext w);
        lms = fit 32 t1 ! 0;
        c2 = Call_calloc (unat lms);
        (p, o2) = calloc (host E) (unat lms) o1;
        (res, w') = fat_create_linkmap E fd w
    in (cltbl (fil sf) \<noteq> TblNull \<longrightarrow> res = FR_OK \<and> w' = w)
     \<and> (cltbl (fil sf) = TblNull \<longrightarrow>
         (rc1 \<noteq> FR_NOT_ENOUGH_CORE \<longrightarrow>
            trace w' = trace w @ [c1] \<and> res = rc1
            \<and> cltbl (fil (fh w' fd)) = (if rc1 = FR_OK then TblInline else TblNull)
            \<and> lktbl (fh w' fd) = fit 32 t1)
       \<and> (rc1 = FR_NOT_ENOUGH_CORE \<and> p = None \<longrightarrow>
            trace w' = trace w @ [c1, c2] \<and> res = FR_NOT_ENOUGH_CORE
            \<and> cltbl (fil (fh w' fd)) = TblNull)
       \<and> (\<forall>a. rc1 = FR_NOT_ENOUGH_CORE \<and> p = Some a \<longrightarrow>
            (let f2 = f1\<lparr>cltbl := TblHeap a\<rparr>;
                 b2 = (replicate (unat lms) 0)[0 := lms];
                 c3 = Call_f_lseek f2 b2 CREATE_LINKMAP;
                 ((rc2, f3, t3), o3) = f_lseek (engine E) f2 b2 CREATE_LINKMAP o2
             in length b2 = unat lms \<and> (0 < lms \<longrightarrow> b2 ! 0 = lms)
              \<and> (rc2 = FR_OK \<longrightarrow>
                   trace w' = trace w @ [c1, c2, c3] \<and> res = FR_OK
                   \<and> cltbl (fil (fh w' fd)) = TblHeap a
                   \<and> heap w' a = Some (fit (unat lms) t3))
              \<and> (rc2 \<noteq> FR_OK \<longrightarrow>
                   trace w' = trace w @ [c1, c2, c3, Call_free a] \<and> res = rc2
                   \<and> cltbl (fil (fh w' fd)) = TblNull
                   \<and> heap w' a = None)))))"
proof -
  obtain rc1 f1 t1 e1 g1 where
    r1: "f_lseek (engine E) ((fil (fh w fd))\<lparr>cltbl := TblInline\<rparr>) ((replicate 32 0)[0 := 32])
           CREATE_LINKMAP (errno w, ext w) = ((rc1, f1, t1), e1, g1)"
    by (rule prod5E)
  obtain p e2 g2 where
    r2: "calloc (host E) (unat (fit 32 t1 ! 0)) (e1, g1) = (p, e2, g2)"
    by (rule prod3E)
  show ?thesis
  proof (cases "cltbl (fil (fh w fd)) = TblNull")
    case False
    then show ?thesis
      by (simp add: fat_create_linkmap_attached Let_def split_beta)
  next
    case null: True
    show ?thesis
    proof (cases "rc1 = FR_NOT_ENOUGH_CORE")
      case False
      with null r1 r2 clm_first [OF null r1] show ?thesis
        by (simp add: Let_def)
    next
      case nec: True
      show ?thesis
      proof (cases p)
        case None
        with null nec r1 r2 clm_nomem [OF null r1 [unfolded nec] r2 [unfolded None]] show ?thesis
          by (simp add: Let_def)
      next
        case (Some a)
        obtain rc2 f3 t3 e3 g3 where
          r3: "f_lseek (engine E) (f1\<lparr>cltbl := TblHeap a\<rparr>)
                 ((replicate (unat (fit 32 t1 ! 0)) 0)[0 := fit 32 t1 ! 0])
                 CREATE_LINKMAP (e2, g2) = ((rc2, f3, t3), e3, g3)"
          by (rule prod5E)
        from null nec Some r1 r2 r3 clm_retry [OF null r1 [unfolded nec] r2 [unfolded Some] r3]
        show ?thesis
          by (simp add: Let_def unat_gt_0 word_neq_0_conv)
      qed
    qed
  qed
qed

theorem fat_create_linkmap_protocol_witness:
  "cltbl (fil (fh (demo_world 40) 0)) = TblNull
   \<and> fst (fat_create_linkmap demo_env 0 (demo_world 40)) = FR_OK
   \<and> trace (snd (fat_create_linkmap demo_env 0 (demo_world 40))) =
       [Call_f_lseek (zero_FIL\<lparr>cltbl := TblInline\<rparr>) ((replicate 32 0)[0 := 32]) CREATE_LINKMAP,
        Call_calloc 40,
        Call_f_lseek (zero_FIL\<lparr>cltbl := TblHeap 7\<rparr>) ((replicate 40 0)[0 := 40]) CREATE_LINKMAP]
   \<and> cltbl (fil (fh (snd (fat_create_linkmap demo_env 0 (demo_world 40))) 0)) = TblHeap 7
   \<and> heap (snd (fat_create_linkmap demo_env 0 (demo_world 40))) 7 = Some ((replicate 40 0)[0 := 40])"
  using fat_create_linkmap_protocol [of "demo_world 40" 0 demo_env]
  by (simp add: demo_defs Let_def split_beta fit_def FATFS_LINK_TBL_SIZE_def)

section \<open>The MBR check\<close>

text \<open>
  Claim C3 as stated does not hold: a sector without the MBR signature and a sector with the
  signature whose slot 0 has a zero type byte give the same result, \<open>- 1\<close>.
\<close>

theorem check_partition_not_distinct_counterexample:
  "length blank_sector = 512 \<and> length signed_sector = 512
   \<and> blank_sector ! 0x1FE \<noteq> 0x55
   \<and> signed_sector ! 0x1FE = 0x55 \<and> signed_sector ! 0x1FF = 0xAA
   \<and> signed_sector ! (0x1BE + 4) = 0
   \<and> check_partition blank_sector 0 = Some (- 1)
   \<and> check_partition signed_sector 0 = Some (- 1)"
  by (simp add: check_partition_def blank_sector_def signed_sector_def)

text \<open>
  Claim C3, amended.  For every 512-byte sector and every slot 0 to 3 the scanner returns 0
  exactly when both signature bytes are present and the type byte of the slot is not zero,
  and \<open>- 1\<close> in every other case: a missing signature and an empty slot are both reported
  as \<open>- 1\<close>.
\<close>

theorem check_partition_result:
  assumes "length buf = 512" and "0 \<le> part" and "part \<le> 3"
  shows "check_partition buf part =
           Some (if buf ! 0x1FE = 0x55 \<and> buf ! 0x1FF = 0xAA \<and> buf ! nat (16 * part + 0x1BE + 4) \<noteq> 0
                 then 0 else - 1)"
  using assms by (simp add: check_partition_def Let_def)

theorem check_partition_result_witness:
  "length (signed_sector[0x1C2 := 0x0B]) = 512 \<and> (0::int) \<le> 0 \<and> (0::int) \<le> 3
   \<and> check_partition (signed_sector[0x1C2 := 0x0B]) 0 = Some 0
   \<and> check_partition (signed_sector[0x1C2 := 0x0B]) 1 = Some (- 1)
   \<and> check_partition blank_sector 0 = Some (- 1)"
  using check_partition_result [of "signed_sector[0x1C2 := 0x0B]" 0]
        check_partition_result [of "signed_sector[0x1C2 := 0x0B]" 1]
        check_partition_result [of blank_sector 0]
  by (simp add: blank_sector_def signed_sector_def)

section \<open>Descriptor guard\<close>

lemma sint_small: "n < 16 \<Longrightarrow> sint (word_of_nat n :: 32 word) = int n"
  by (simp add: signed_of_nat signed_take_bit_int_eq_self)

lemma uint_small: "n \<le> 16 \<Longrightarrow> uint (word_of_nat n :: 32 word) = int n"
  by (simp add: uint_nat unat_of_nat)

lemma hnd_fd_Some_iff: "hnd_fd hnd = Some fd \<longleftrightarrow> fd < 16 \<and> hnd = word_of_nat (fd + 1)"
proof
  assume a: "hnd_fd hnd = Some fd"
  let ?x = "hnd - 1"
  from a have r: "- 1 < sint ?x" "sint ?x < 16" and fd: "fd = nat (sint ?x)"
    by (auto simp: hnd_fd_def Let_def MAX_FAT_FILES_def split: if_splits)
  from r fd have lt: "fd < 16" by simp
  from r fd have "sint ?x = int fd" by simp
  then have "word_of_int (sint ?x) = (word_of_nat fd :: 32 word)" by simp
  then have "?x = word_of_nat fd" by simp
  then have "?x + 1 = word_of_nat fd + 1" by simp
  then have "hnd = word_of_nat (fd + 1)" by simp
  with lt show "fd < 16 \<and> hnd = word_of_nat (fd + 1)" by simp
next
  assume a: "fd < 16 \<and> hnd = word_of_nat (fd + 1)"
  then have "hnd - 1 = word_of_nat fd" by simp
  with a show "hnd_fd hnd = Some fd"
    by (simp add: hnd_fd_def Let_def MAX_FAT_FILES_def sint_small)
qed

lemma hnd_fd_None_iff: "hnd_fd hnd = None \<longleftrightarrow> \<not> (1 \<le> uint hnd \<and> uint hnd \<le> 16)"
proof -
  have "(\<exists>fd. hnd_fd hnd = Some fd) \<longleftrightarrow> (1 \<le> uint hnd \<and> uint hnd \<le> 16)"
  proof
    assume "\<exists>fd. hnd_fd hnd = Some fd"
    then obtain fd where "fd < 16" "hnd = word_of_nat (fd + 1)"
      by (auto simp: hnd_fd_Some_iff)
    then show "1 \<le> uint hnd \<and> uint hnd \<le> 16"
      using uint_small [of "fd + 1"] by simp
  next
    assume b: "1 \<le> uint hnd \<and> uint hnd \<le> 16"
    have "word_of_int (uint hnd) = hnd" by simp
    moreover have "uint hnd = int (nat (uint hnd - 1) + 1)" using b by arith
    ultimately have "hnd = word_of_nat (nat (uint hnd - 1) + 1)"
      by (metis of_int_of_nat_eq)
    moreover have "nat (uint hnd - 1) < 16" using b by arith
    ultimately have "hnd_fd hnd = Some (nat (uint hnd - 1))"
      by (simp only: hnd_fd_Some_iff) 
    then show "\<exists>fd. hnd_fd hnd = Some fd" by blast
  qed
  then show ?thesis by (cases "hnd_fd hnd") auto
qed

lemma set_used_simps [simp]:
  "errno (set_used fd u w) = errno w" "ext (set_used fd u w) = ext w"
  "trace (set_used fd u w) = trace w" "heap (set_used fd u w) = heap w"
  "fat_mnt (set_used fd u w) = fat_mnt w"
  "fil (fh (set_used fd u w) fd) = fil (fh w fd)"
  "lktbl (fh (set_used fd u w) fd) = lktbl (fh w fd)"
  "dir (fh (set_used fd u w) fd) = dir (fh w fd)"
  "mode (fh (set_used fd u w) fd) = mode (fh w fd)"
  "mnt (fh (set_used fd u w) fd) = mnt (fh w fd)"
  "ftype (fh (set_used fd u w) fd) = ftype (fh w fd)"
  "dent (fh (set_used fd u w) fd) = dent (fh w fd)"
  by (simp_all add: set_used_def set_sf_def)

lemma used_call_f_lseek:
  "call_f_lseek E fd ofs (set_used fd u w) = apsnd (set_used fd u) (call_f_lseek E fd ofs w)"
  by (cases "fh w fd")
     (simp add: call_f_lseek_def ext_call_def cltbl_buf_def split_beta Let_def set_used_def set_sf_def
           split: cltbl_ref.split option.split)

lemma used_call_f_sync:
  "call_f_sync E fd (set_used fd u w) = apsnd (set_used fd u) (call_f_sync E fd w)"
  by (cases "fh w fd")
     (simp add: call_f_sync_def ext_call_def store_fil_def split_beta Let_def set_used_def set_sf_def)

lemma used_fat_create_linkmap:
  "fat_create_linkmap E fd (set_used fd u w) = apsnd (set_used fd u) (fat_create_linkmap E fd w)"
proof (cases "cltbl (fil (fh w fd)) = TblNull")
  case False
  then show ?thesis
    by (simp add: fat_create_linkmap_attached)
next
  case null: True
  let ?w = "set_used fd u w"
  have null': "cltbl (fil (fh ?w fd)) = TblNull" using null by simp
  obtain rc1 f1 t1 e1 g1 where
    r1: "f_lseek (engine E) ((fil (fh w fd))\<lparr>cltbl := TblInline\<rparr>) ((replicate 32 0)[0 := 32])
           CREATE_LINKMAP (errno w, ext w) = ((rc1, f1, t1), e1, g1)"
    by (rule prod5E)
  then have r1': "f_lseek (engine E) ((fil (fh ?w fd))\<lparr>cltbl := TblInline\<rparr>) ((replicate 32 0)[0 := 32])
           CREATE_LINKMAP (errno ?w, ext ?w) = ((rc1, f1, t1), e1, g1)"
    by simp
  obtain p e2 g2 where
    r2: "calloc (host E) (unat (fit 32 t1 ! 0)) (e1, g1) = (p, e2, g2)"
    by (rule prod3E)
  show ?thesis
  proof (cases "rc1 = FR_NOT_ENOUGH_CORE")
    case False
    show ?thesis
      unfolding clm_first [OF null r1 False] clm_first [OF null' r1' False]
      by (cases "fh w fd") (simp add: set_used_def set_sf_def)
  next
    case nec: True
    show ?thesis
    proof (cases p)
      case None
      show ?thesis
        unfolding clm_nomem [OF null r1 [unfolded nec] r2 [unfolded None]]
                  clm_nomem [OF null' r1' [unfolded nec] r2 [unfolded None]]
        by (cases "fh w fd") (simp add: set_used_def set_sf_def)
    next
      case (Some a)
      obtain rc2 f3 t3 e3 g3 where
        r3: "f_lseek (engine E) (f1\<lparr>cltbl := TblHeap a\<rparr>)
               ((replicate (unat (fit 32 t1 ! 0)) 0)[0 := fit 32 t1 ! 0])
               CREATE_LINKMAP (e2, g2) = ((rc2, f3, t3), e3, g3)"
        by (rule prod5E)
      show ?thesis
        unfolding clm_retry [OF null r1 [unfolded nec] r2 [unfolded Some] r3]
                  clm_retry [OF null' r1' [unfolded nec] r2 [unfolded Some] r3]
        by (cases "fh w fd") (simp add: set_used_def set_sf_def)
    qed
  qed
qed

lemma set_used_twice [simp]: "set_used fd u (set_used fd v w) = set_used fd u w"
  by (cases "fh w fd") (simp add: set_used_def set_sf_def)

lemma forget_lift [simp]: "forget_used fd (lift_used fd u r) = forget_used fd r"
  by (cases r) (auto simp: forget_used_def lift_used_def)

lemma lift_used_simps [simp]:
  "lift_used fd u (Inl x) = Inl x"
  "lift_used fd u (Inr (rv, w)) = Inr (rv, set_used fd u w)"
  by (simp_all add: lift_used_def)

lemma set_used_errno: "(set_used fd u w)\<lparr>errno := e\<rparr> = set_used fd u (w\<lparr>errno := e\<rparr>)"
  by (simp add: set_used_def set_sf_def)

lemma set_used_trace: "(set_used fd u w)\<lparr>trace := t\<rparr> = set_used fd u (w\<lparr>trace := t\<rparr>)"
  by (simp add: set_used_def set_sf_def)

lemma used_ext_call: "ext_call c f (set_used fd u w) = apsnd (set_used fd u) (ext_call c f w)"
  by (simp add: ext_call_def split_beta set_used_def set_sf_def)

lemma used_store_fil: "store_fil fd f (set_used fd u w) = set_used fd u (store_fil fd f w)"
  by (cases "fh w fd") (simp add: store_fil_def set_used_def set_sf_def)

lemma used_linkmap_wanted: "linkmap_wanted E fd (set_used fd u w) = linkmap_wanted E fd w"
  by (simp add: linkmap_wanted_def Let_def split: option.split)

lemma used_tell: "fat_tell_body fd (set_used fd u w) = lift_used fd u (fat_tell_body fd w)"
  by (simp add: fat_tell_body_def)

lemma used_total: "fat_total_body fd (set_used fd u w) = lift_used fd u (fat_total_body fd w)"
  by (simp add: fat_total_body_def)

lemma used_fcntl: "fat_fcntl_body E cmd fd (set_used fd u w) = lift_used fd u (fat_fcntl_body E cmd fd w)"
  by (simp add: fat_fcntl_body_def set_used_errno)

lemma used_fstat: "fat_fstat_body E fd (set_used fd u w) = lift_used fd u (fat_fstat_body E fd w)"
  by (simp add: fat_fstat_body_def Let_def split: option.split)

lemma used_close: "fat_close_body E fd (set_used fd u w) = fat_close_body E fd w"
proof -
  have "set_sf fd ((fh (set_used fd u w) fd)\<lparr>used := 0\<rparr>) (set_used fd u w)
          = set_sf fd ((fh w fd)\<lparr>used := 0\<rparr>) w"
    by (cases "fh w fd") (simp add: set_used_def set_sf_def)
  then show ?thesis by (simp add: fat_close_body_def)
qed

lemma used_write:
  "fat_write_body E buffer cnt fd (set_used fd u w) = lift_used fd u (fat_write_body E buffer cnt fd w)"
  by (simp add: fat_write_body_def used_ext_call used_store_fil set_used_errno split_beta Let_def)

lemma used_seek:
  "fat_seek_body E offset whence fd (set_used fd u w) = lift_used fd u (fat_seek_body E offset whence fd w)"
  by (simp add: fat_seek_body_def used_call_f_lseek set_used_errno split_beta Let_def)

lemma used_complete:
  "fat_complete_body E fd (set_used fd u w) = lift_used fd u (fat_complete_body E fd w)"
  by (simp add: fat_complete_body_def used_call_f_sync set_used_errno split_beta Let_def)

lemma used_read:
  "fat_read_body E buffer sz fd (set_used fd u w) = lift_used fd u (fat_read_body E buffer sz fd w)"
  by (simp add: fat_read_body_def used_linkmap_wanted used_fat_create_linkmap used_ext_call
        used_store_fil set_used_errno split_beta Let_def split: sum.split)

lemma used_set_dir:
  "set_sf fd ((fh (set_used fd u w) fd)\<lparr>dir := d\<rparr>) (set_used fd u w)
     = set_used fd u (set_sf fd ((fh w fd)\<lparr>dir := d\<rparr>) w)"
  by (cases "fh w fd") (simp add: set_used_def set_sf_def)

lemma used_set_dent:
  "set_sf fd ((fh (set_used fd u w) fd)\<lparr>dent := d\<rparr>) (set_used fd u w)
     = set_used fd u (set_sf fd ((fh w fd)\<lparr>dent := d\<rparr>) w)"
  by (cases "fh w fd") (simp add: set_used_def set_sf_def)

lemma used_set_dir_dent:
  "set_sf fd ((fh (set_used fd u w) fd)\<lparr>dir := d, dent := e\<rparr>) (set_used fd u w)
     = set_used fd u (set_sf fd ((fh w fd)\<lparr>dir := d, dent := e\<rparr>) w)"
  by (cases "fh w fd") (simp add: set_used_def set_sf_def)

lemma set_sf_dir [simp]: "dir (fh (set_sf fd sf w) fd) = dir sf" "dent (fh (set_sf fd sf w) fd) = dent sf"
  by (simp_all add: set_sf_def)

lemma used_rewinddir:
  "fat_rewinddir_body E fd (set_used fd u w) = lift_used fd u (fat_rewinddir_body E fd w)"
  by (simp add: fat_rewinddir_body_def used_ext_call used_set_dir set_used_errno split_beta Let_def)

lemma used_readdir:
  "fat_readdir_body E fd (set_used fd u w) = lift_used fd u (fat_readdir_body E fd w)"
  by (simp add: fat_readdir_body_def used_ext_call used_set_dent used_set_dir_dent set_used_errno
        split_beta Let_def)

lemma used_FAT_GET_MOUNT: "FAT_GET_MOUNT E pdrv (set_used fd u w) = FAT_GET_MOUNT E pdrv w"
  by (simp add: FAT_GET_MOUNT_def)

lemma used_disk_read:
  "disk_read E pdrv buff sector count (set_used fd u w) = lift_used fd u (disk_read E pdrv buff sector count w)"
  by (auto simp add: disk_read_def used_FAT_GET_MOUNT used_ext_call set_used_trace split_beta Let_def
        split: option.split sum.split)

lemma used_disk_ioctl:
  "disk_ioctl E pdrv cmd (set_used fd u w) = lift_used fd u (disk_ioctl E pdrv cmd w)"
  by (simp add: disk_ioctl_def used_FAT_GET_MOUNT used_ext_call split_beta Let_def
        split: option.split)

lemma used_cltbl_buf: "cltbl_buf (set_used fd u w) (fh (set_used fd u w) fd) = cltbl_buf w (fh w fd)"
  by (simp add: cltbl_buf_def split: cltbl_ref.split option.split)

lemma used_ioctl:
  "fat_ioctl_body E cmd data fd (set_used fd u w) = lift_used fd u (fat_ioctl_body E cmd data fd w)"
proof -
  have lm: "cltbl_buf (set_used fd u w') (fh (set_used fd u w') fd) = cltbl_buf w' (fh w' fd)" for w' :: "'a world"
    by (rule used_cltbl_buf)
  show ?thesis
    by (cases "disk_read E (drv (the (fil_fs (fil (fh w fd))))) data 0 1 w";
        cases "disk_ioctl E (drv (the (fil_fs (fil (fh w fd))))) (word_of_int cmd) w")
       (auto simp: fat_ioctl_body_def used_disk_read used_disk_ioctl used_fat_create_linkmap lm
          split_beta Let_def split: option.split list.split)
qed

lemma hnd_fd_in_range:
  assumes "1 \<le> uint hnd \<and> uint hnd \<le> 16"
  shows "hnd_fd hnd = Some (nat (uint hnd) - 1)"
proof -
  from assms obtain fd where fd: "hnd_fd hnd = Some fd"
    using hnd_fd_None_iff [of hnd] by (cases "hnd_fd hnd") auto
  then have "fd < 16" "hnd = word_of_nat (fd + 1)" by (simp_all add: hnd_fd_Some_iff)
  then have "uint hnd = int (fd + 1)" using uint_small [of "fd + 1"] by simp
  then have "fd = nat (uint hnd) - 1" by simp
  with fd show ?thesis by simp
qed

lemma reject_simps:
  "hnd_fd hnd = None \<Longrightarrow> FAT_GET_HND hnd rv body w = Inr (rv, w\<lparr>errno := ENFILE\<rparr>)"
  by (simp add: FAT_GET_HND_def)

lemma accept_simps:
  "hnd_fd hnd = Some fd \<Longrightarrow> FAT_GET_HND hnd rv body w = body fd w"
  by (simp add: FAT_GET_HND_def)

lemma clm_calls:
  assumes null: "cltbl (fil (fh w fd)) = TblNull"
  shows "\<exists>c cs. trace (snd (fat_create_linkmap E fd w)) = trace w @ c # cs"
proof -
  obtain rc1 f1 t1 e1 g1 where
    r1: "f_lseek (engine E) ((fil (fh w fd))\<lparr>cltbl := TblInline\<rparr>) ((replicate 32 0)[0 := 32])
           CREATE_LINKMAP (errno w, ext w) = ((rc1, f1, t1), e1, g1)"
    by (rule prod5E)
  obtain p e2 g2 where
    r2: "calloc (host E) (unat (fit 32 t1 ! 0)) (e1, g1) = (p, e2, g2)"
    by (rule prod3E)
  show ?thesis
  proof (cases "rc1 = FR_NOT_ENOUGH_CORE")
    case False
    show ?thesis
      unfolding clm_first [OF null r1 False] by simp
  next
    case nec: True
    show ?thesis
    proof (cases p)
      case None
      show ?thesis
        unfolding clm_nomem [OF null r1 [unfolded nec] r2 [unfolded None]] by simp
    next
      case (Some a)
      obtain rc2 f3 t3 e3 g3 where
        r3: "f_lseek (engine E) (f1\<lparr>cltbl := TblHeap a\<rparr>)
               ((replicate (unat (fit 32 t1 ! 0)) 0)[0 := fit 32 t1 ! 0])
               CREATE_LINKMAP (e2, g2) = ((rc2, f3, t3), e3, g3)"
        by (rule prod5E)
      show ?thesis
        unfolding clm_retry [OF null r1 [unfolded nec] r2 [unfolded Some] r3] by simp
    qed
  qed
qed

lemma clm_quiet:
  "trace (snd (fat_create_linkmap E fd w)) = trace w \<Longrightarrow> snd (fat_create_linkmap E fd w) = w"
proof (cases "cltbl (fil (fh w fd)) = TblNull")
  case False
  then show ?thesis by (simp add: fat_create_linkmap_attached)
next
  case True
  assume "trace (snd (fat_create_linkmap E fd w)) = trace w"
  with clm_calls [OF True, of E] show ?thesis by auto
qed

lemma quiet_simps:
  "trace (set_sf fd sf w) = trace w" "errno (set_sf fd sf w) = errno w"
  "trace (store_fil fd f w) = trace w" "errno (store_fil fd f w) = errno w"
  "trace (snd (ext_call c g w)) = trace w @ [c]"
  by (simp_all add: set_sf_def store_fil_def ext_call_def split_beta)

lemma passed_tell: "guard_passed w (fat_tell_body fd w)"
  by (simp add: guard_passed_def fat_tell_body_def)

lemma passed_total: "guard_passed w (fat_total_body fd w)"
  by (simp add: guard_passed_def fat_total_body_def)

lemma passed_fcntl: "guard_passed w (fat_fcntl_body E cmd fd w)"
  by (simp add: guard_passed_def fat_fcntl_body_def)

lemma passed_fstat: "guard_passed w (fat_fstat_body E fd w)"
  by (simp add: guard_passed_def fat_fstat_body_def Let_def split: option.split)

lemma trace_call_free:
  "trace (call_free p w) = trace w @ (case p of TblHeap a \<Rightarrow> [Call_free a] | _ \<Rightarrow> [])"
  by (simp add: call_free_def split: cltbl_ref.split)

lemma passed_close: "guard_passed w (fat_close_body E fd w)"
  by (simp add: guard_passed_def fat_close_body_def quiet_simps trace_call_free split_beta Let_def)

lemma passed_write: "guard_passed w (fat_write_body E buffer cnt fd w)"
  by (simp add: guard_passed_def fat_write_body_def quiet_simps split_beta Let_def)

lemma passed_rewinddir: "guard_passed w (fat_rewinddir_body E fd w)"
  by (simp add: guard_passed_def fat_rewinddir_body_def quiet_simps split_beta Let_def)

lemma passed_readdir: "guard_passed w (fat_readdir_body E fd w)"
  by (simp add: guard_passed_def fat_readdir_body_def quiet_simps split_beta Let_def)

lemma passed_complete: "guard_passed w (fat_complete_body E fd w)"
  by (simp add: guard_passed_def fat_complete_body_def call_f_sync_def quiet_simps split_beta Let_def)

lemma trace_call_f_lseek: "trace (snd (call_f_lseek E fd ofs w)) \<noteq> trace w"
  by (simp add: call_f_lseek_def quiet_simps split_beta Let_def split: cltbl_ref.split option.split)

lemma passed_seek: "guard_passed w (fat_seek_body E offset whence fd w)"
  using trace_call_f_lseek [of E fd _ w]
  by (simp add: guard_passed_def fat_seek_body_def quiet_simps split_beta Let_def)

lemma wanted_null: "linkmap_wanted E fd w = Inr True \<Longrightarrow> cltbl (fil (fh w fd)) = TblNull"
  by (auto simp: linkmap_wanted_def Let_def split: if_splits option.splits)

lemma passed_read: "guard_passed w (fat_read_body E buffer sz fd w)"
proof (cases "linkmap_wanted E fd w")
  case (Inl x)
  then show ?thesis by (simp add: guard_passed_def fat_read_body_def)
next
  case (Inr b)
  show ?thesis
  proof (cases b)
    case True
    with Inr have "cltbl (fil (fh w fd)) = TblNull" by (simp add: wanted_null)
    from clm_calls [OF this, of E] obtain c cs where
      "trace (snd (fat_create_linkmap E fd w)) = trace w @ c # cs" by blast
    with Inr True show ?thesis
      by (simp add: guard_passed_def fat_read_body_def quiet_simps split_beta Let_def)
  next
    case False
    with Inr show ?thesis
      by (simp add: guard_passed_def fat_read_body_def quiet_simps split_beta Let_def)
  qed
qed

lemma passed_disk_read: "guard_passed w (disk_read E pdrv buff sector count w)"
  by (simp add: guard_passed_def disk_read_def quiet_simps split_beta Let_def split: option.split sum.split)

lemma passed_disk_ioctl: "guard_passed w (disk_ioctl E pdrv cmd w)"
  by (simp add: guard_passed_def disk_ioctl_def quiet_simps split_beta Let_def split: option.split)

lemma passed_case:
  "guard_passed w r \<Longrightarrow> guard_passed w (case r of Inl x \<Rightarrow> Inl x | Inr (rc, w1) \<Rightarrow> Inr (g rc, w1))"
  by (cases r) (auto simp: guard_passed_def)

lemma passed_case2:
  "guard_passed w r \<Longrightarrow>
   guard_passed w (case r of Inl x \<Rightarrow> Inl x | Inr ((rc, out), w1) \<Rightarrow> Inr (g rc out, w1))"
  by (cases r) (auto simp: guard_passed_def)

lemma passed_same: "guard_passed w (Inr (rv, w))" "guard_passed w (Inl x)"
  by (simp_all add: guard_passed_def)

lemma passed_ioctl: "guard_passed w (fat_ioctl_body E cmd data fd w)"
proof -
  consider (boot) "cmd = FATFS_IOCTL_GET_BOOT_SECTOR_DATA (cd E)"
    | (lba) "cmd \<noteq> FATFS_IOCTL_GET_BOOT_SECTOR_DATA (cd E)" "cmd = FATFS_IOCTL_GET_FD_LBA (cd E)"
    | (lmap) "cmd \<noteq> FATFS_IOCTL_GET_BOOT_SECTOR_DATA (cd E)" "cmd \<noteq> FATFS_IOCTL_GET_FD_LBA (cd E)"
             "cmd = FATFS_IOCTL_GET_FD_LINK_MAP (cd E)"
    | (other) "cmd \<noteq> FATFS_IOCTL_GET_BOOT_SECTOR_DATA (cd E)" "cmd \<noteq> FATFS_IOCTL_GET_FD_LBA (cd E)"
             "cmd \<noteq> FATFS_IOCTL_GET_FD_LINK_MAP (cd E)"
    by blast
  then show ?thesis
  proof cases
    case boot
    then show ?thesis
      by (simp add: fat_ioctl_body_def Let_def passed_case passed_disk_read passed_same split: option.split)
  next
    case lba
    then show ?thesis
      by (simp add: fat_ioctl_body_def Let_def passed_same split: option.split)
  next
    case lmap
    obtain rc w1 where c: "fat_create_linkmap E fd w = (rc, w1)" by (cases "fat_create_linkmap E fd w")
    with clm_quiet [of E fd w] have q: "trace w1 = trace w \<Longrightarrow> w1 = w" by simp
    have g: "guard_passed w (Inr (rv, w1))" for rv :: "int \<times> out_data"
      using q by (auto simp: guard_passed_def)
    from lmap show ?thesis
      by (simp add: fat_ioctl_body_def Let_def c g passed_same split: list.split)
  next
    case other
    then show ?thesis
      by (simp add: fat_ioctl_body_def Let_def passed_case2 passed_disk_ioctl passed_same split: option.split)
  qed
qed

text \<open>
  Claim C10.  For each of the twelve descriptor operations and every handle value: a value
  outside 1..16 makes the operation return its failure value with \<^verbatim>\<open>errno\<close> set to
  \<^verbatim>\<open>ENFILE\<close> and nothing else changed (no call to the outside is recorded); a value inside
  the range selects slot \<open>hnd - 1\<close> and the operation is the body of its function run on
  that slot.  The guard does not fire there: whenever the operation returns without a call to
  the outside, \<^verbatim>\<open>errno\<close> is what it was or is the body's \<^verbatim>\<open>EINVAL\<close> (\<open>guard_passed\<close>).  And
  the outcome does not depend on the \<open>used\<close> flag of the slot: run on a slot marked free or
  marked used, the operation returns the same value and the same state up to that flag.  So
  a free slot is not turned away.
\<close>

theorem descriptor_guard:
  "(\<not> (1 \<le> uint hnd \<and> uint hnd \<le> 16) \<longrightarrow>
        fat_close E hnd w = Inr (- 1, w\<lparr>errno := ENFILE\<rparr>)
      \<and> fat_read E hnd buffer sz w = Inr (- 1, w\<lparr>errno := ENFILE\<rparr>)
      \<and> fat_write E hnd buffer sz w = Inr (- 1, w\<lparr>errno := ENFILE\<rparr>)
      \<and> fat_seek E hnd offset whence w = Inr (- 1, w\<lparr>errno := ENFILE\<rparr>)
      \<and> fat_tell hnd w = Inr (- 1, w\<lparr>errno := ENFILE\<rparr>)
      \<and> fat_total hnd w = Inr (- 1, w\<lparr>errno := ENFILE\<rparr>)
      \<and> fat_readdir E hnd w = Inr (None, w\<lparr>errno := ENFILE\<rparr>)
      \<and> fat_rewinddir E hnd w = Inr (- 1, w\<lparr>errno := ENFILE\<rparr>)
      \<and> fat_ioctl E hnd cmd data w = Inr ((- 1, Out_none), w\<lparr>errno := ENFILE\<rparr>)
      \<and> fat_fcntl E hnd cmd w = Inr (- 1, w\<lparr>errno := ENFILE\<rparr>)
      \<and> fat_complete E hnd w = Inr (- 1, w\<lparr>errno := ENFILE\<rparr>)
      \<and> fat_fstat E hnd w = Inr ((- 1, None), w\<lparr>errno := ENFILE\<rparr>))
   \<and> (1 \<le> uint hnd \<and> uint hnd \<le> 16 \<longrightarrow>
        (let fd = nat (uint hnd) - 1; w0 = set_used fd u w
         in hnd_fd hnd = Some fd
          \<and> fat_close E hnd w = fat_close_body E fd w
          \<and> fat_read E hnd buffer sz w = fat_read_body E buffer sz fd w
          \<and> fat_write E hnd buffer sz w = fat_write_body E buffer sz fd w
          \<and> fat_seek E hnd offset whence w = fat_seek_body E offset whence fd w
          \<and> fat_tell hnd w = fat_tell_body fd w
          \<and> fat_total hnd w = fat_total_body fd w
          \<and> fat_readdir E hnd w = fat_readdir_body E fd w
          \<and> fat_rewinddir E hnd w = fat_rewinddir_body E fd w
          \<and> fat_ioctl E hnd cmd data w = fat_ioctl_body E cmd data fd w
          \<and> fat_fcntl E hnd cmd w = fat_fcntl_body E cmd fd w
          \<and> fat_complete E hnd w = fat_complete_body E fd w
          \<and> fat_fstat E hnd w = fat_fstat_body E fd w
          \<and> guard_passed w (fat_close E hnd w)
          \<and> guard_passed w (fat_read E hnd buffer sz w)
          \<and> guard_passed w (fat_write E hnd buffer sz w)
          \<and> guard_passed w (fat_seek E hnd offset whence w)
          \<and> guard_passed w (fat_tell hnd w)
          \<and> guard_passed w (fat_total hnd w)
          \<and> guard_passed w (fat_readdir E hnd w)
          \<and> guard_passed w (fat_rewinddir E hnd w)
          \<and> guard_passed w (fat_ioctl E hnd cmd data w)
          \<and> guard_passed w (fat_fcntl E hnd cmd w)
          \<and> guard_passed w (fat_complete E hnd w)
          \<and> guard_passed w (fat_fstat E hnd w)
          \<and> forget_used fd (fat_close E hnd w0) = forget_used fd (fat_close E hnd w)
          \<and> forget_used fd (fat_read E hnd buffer sz w0) = forget_used fd (fat_read E hnd buffer sz w)
          \<and> forget_used fd (fat_write E hnd buffer sz w0) = forget_used fd (fat_write E hnd buffer sz w)
          \<and> forget_used fd (fat_seek E hnd offset whence w0) = forget_used fd (fat_seek E hnd offset whence w)
          \<and> forget_used fd (fat_tell hnd w0) = forget_used fd (fat_tell hnd w)
          \<and> forget_used fd (fat_total hnd w0) = forget_used fd (fat_total hnd w)
          \<and> forget_used fd (fat_readdir E hnd w0) = forget_used fd (fat_readdir E hnd w)
          \<and> forget_used fd (fat_rewinddir E hnd w0) = forget_used fd (fat_rewinddir E hnd w)
          \<and> forget_used fd (fat_ioctl E hnd cmd data w0) = forget_used fd (fat_ioctl E hnd cmd data w)
          \<and> forget_used fd (fat_fcntl E hnd cmd w0) = forget_used fd (fat_fcntl E hnd cmd w)
          \<and> forget_used fd (fat_complete E hnd w0) = forget_used fd (fat_complete E hnd w)
          \<and> forget_used fd (fat_fstat E hnd w0) = forget_used fd (fat_fstat E hnd w)))"
proof (cases "1 \<le> uint hnd \<and> uint hnd \<le> 16")
  case False
  then have "hnd_fd hnd = None" by (simp add: hnd_fd_None_iff)
  with False show ?thesis
    by (simp add: reject_simps fat_close_def fat_read_def fat_write_def fat_seek_def fat_tell_def
          fat_total_def fat_readdir_def fat_rewinddir_def fat_ioctl_def fat_fcntl_def
          fat_complete_def fat_fstat_def)
next
  case True
  then have fd: "hnd_fd hnd = Some (nat (uint hnd) - 1)" by (rule hnd_fd_in_range)
  have acc: "FAT_GET_HND hnd rv body w' = body (nat (uint hnd) - 1) w'"
    for rv :: 'r and body and w' :: "'a world"
    using fd by (rule accept_simps)
  from True fd show ?thesis
    by (simp add: Let_def acc fat_close_def fat_read_def fat_write_def fat_seek_def fat_tell_def
          fat_total_def fat_readdir_def fat_rewinddir_def fat_ioctl_def fat_fcntl_def
          fat_complete_def fat_fstat_def
          passed_close passed_read passed_write passed_seek passed_tell passed_total passed_readdir
          passed_rewinddir passed_ioctl passed_fcntl passed_complete passed_fstat
          used_close used_read used_write used_seek used_tell used_total used_readdir
          used_rewinddir used_ioctl used_fcntl used_complete used_fstat)
qed

theorem descriptor_guard_witness:
  "\<not> (1 \<le> uint (17 :: 32 word) \<and> uint (17 :: 32 word) \<le> 16)
   \<and> fat_tell 17 (demo_world 3) = Inr (- 1, (demo_world 3)\<lparr>errno := ENFILE\<rparr>)
   \<and> fat_close demo_env 0 (demo_world 3) = Inr (- 1, (demo_world 3)\<lparr>errno := ENFILE\<rparr>)
   \<and> (1 \<le> uint (3 :: 32 word) \<and> uint (3 :: 32 word) \<le> 16)
   \<and> hnd_fd 3 = Some 2
   \<and> used (fh (demo_world 3) 2) = 0
   \<and> forget_used 2 (fat_tell 3 (set_used 2 1 (demo_world 3))) = forget_used 2 (fat_tell 3 (demo_world 3))
   \<and> fat_tell 3 (demo_world 3) = Inr (0, demo_world 3)
   \<and> fat_total 3 (demo_world 3) = Inr (0, demo_world 3)
   \<and> (\<exists>w'. fat_write demo_env 3 0x100 4 (demo_world 3) = Inr (4, w')
           \<and> trace w' = [Call_f_write (fil zero_fatfs) 0x100 4])
   \<and> fat_fstat demo_env 3 (demo_world 3) = Inl NullDeref
   \<and> guard_passed (demo_world 3) (fat_close demo_env 3 (demo_world 3))"
proof -
  note g = descriptor_guard [where E = demo_env and w = "demo_world 3" and u = 1 and buffer = "0x100"
      and sz = 4 and offset = 0 and whence = 0 and cmd = 0 and data = 0]
  have a: "\<not> (1 \<le> uint (17 :: 32 word) \<and> uint (17 :: 32 word) \<le> 16)" by simp
  have b: "\<not> (1 \<le> uint (0 :: 32 word) \<and> uint (0 :: 32 word) \<le> 16)" by simp
  have c: "1 \<le> uint (3 :: 32 word) \<and> uint (3 :: 32 word) \<le> 16" by simp
  from g [of 17] a
  have r17: "fat_tell 17 (demo_world 3) = Inr (- 1, (demo_world 3)\<lparr>errno := ENFILE\<rparr>)" by blast
  from g [of 0] b
  have r0: "fat_close demo_env 0 (demo_world 3) = Inr (- 1, (demo_world 3)\<lparr>errno := ENFILE\<rparr>)" by blast
  note r = g [of 3, THEN conjunct2, THEN mp, OF c, unfolded Let_def]
  have n: "nat (uint (3 :: 32 word)) - 1 = 2" by simp
  from r have r3: "hnd_fd 3 = Some 2" unfolding n by blast
  from r have r3': "forget_used 2 (fat_tell 3 (set_used 2 1 (demo_world 3))) = forget_used 2 (fat_tell 3 (demo_world 3))"
    unfolding n by blast
  from r have t0: "fat_tell 3 (demo_world 3) = fat_tell_body 2 (demo_world 3)" unfolding n by blast
  from r have s0: "fat_total 3 (demo_world 3) = fat_total_body 2 (demo_world 3)" unfolding n by blast
  from r have w0: "fat_write demo_env 3 0x100 4 (demo_world 3) = fat_write_body demo_env 0x100 4 2 (demo_world 3)"
    unfolding n by blast
  from r have f0: "fat_fstat demo_env 3 (demo_world 3) = fat_fstat_body demo_env 2 (demo_world 3)"
    unfolding n by blast
  from r have p0: "guard_passed (demo_world 3) (fat_close demo_env 3 (demo_world 3))"
    unfolding n by blast
  have t: "fat_tell 3 (demo_world 3) = Inr (0, demo_world 3)"
    unfolding t0 by (simp add: fat_tell_body_def demo_world_def zero_fatfs_def zero_FIL_def)
  have s: "fat_total 3 (demo_world 3) = Inr (0, demo_world 3)"
    unfolding s0 by (simp add: fat_total_body_def demo_world_def zero_fatfs_def zero_FIL_def)
  have wr: "\<exists>w'. fat_write demo_env 3 0x100 4 (demo_world 3) = Inr (4, w')
           \<and> trace w' = [Call_f_write (fil zero_fatfs) 0x100 4]"
    unfolding w0
    by (simp add: fat_write_body_def ext_call_def store_fil_def set_sf_def Let_def
          demo_world_def demo_env_def demo_engine_def)
  have fs: "fat_fstat demo_env 3 (demo_world 3) = Inl NullDeref"
    unfolding f0 by (simp add: fat_fstat_body_def demo_world_def zero_fatfs_def)
  have u: "used (fh (demo_world 3) 2) = 0"
    by (simp add: demo_world_def zero_fatfs_def)
  from a r17 r0 c r3 u r3' t s wr fs p0 show ?thesis by blast
qed

section \<open>Running the concrete environment\<close>

lemma find_free_first: "used (tab fd) = 0 \<Longrightarrow> find_free tab fd MAX_FAT_FILES = Some fd"
  by (simp add: MAX_FAT_FILES_def eval_nat_numeral)

lemma demo_open_result:
  "fat_open demo_env demo_vfs (Some ''/a.bin'') 0 (demo_mounted g) = (1, demo_opened g)"
  by (simp add: fat_open_def find_free_first demo_defs ext_call_def set_sf_def
       fat_open_file_def open_mode_flags_def store_fil_def append_seek_def Let_def
       demo_opened_def demo_file_def FATFS_LINK_TBL_SIZE_def)

lemma hnd_fd_1: "hnd_fd 1 = Some 0"
  by (simp add: hnd_fd_def MAX_FAT_FILES_def)

lemma demo_wanted: "linkmap_wanted demo_env 0 (demo_opened g) = Inr True"
  by (simp add: linkmap_wanted_def demo_opened_def demo_file_def demo_defs)

lemma demo_linkmap_10:
  "fat_create_linkmap demo_env 0 (demo_opened 10) = (FR_OK, demo_linked)"
  by (simp add: fat_create_linkmap_def call_f_lseek_def cltbl_buf_def ext_call_def set_sf_def
        demo_linked_def demo_opened_def demo_file_def demo_defs fit_def
        FATFS_LINK_TBL_SIZE_def Let_def)

lemma demo_linkmap_40:
  "fat_create_linkmap demo_env 0 (demo_opened 40) = (FR_OK, demo_mapped)"
  by (simp add: fat_create_linkmap_def call_f_lseek_def cltbl_buf_def ext_call_def set_sf_def
        demo_mapped_def demo_opened_def demo_file_def demo_defs fit_def
        FATFS_LINK_TBL_SIZE_def Let_def)

lemma demo_read0_10: "fat_read demo_env 1 0 0 (demo_opened 10) = Inr (0, demo_linked)"
  by (simp add: fat_read_def accept_simps [OF hnd_fd_1] fat_read_body_def demo_wanted demo_linkmap_10)

lemma demo_read0_40: "fat_read demo_env 1 0 0 (demo_opened 40) = Inr (0, demo_mapped)"
  by (simp add: fat_read_def accept_simps [OF hnd_fd_1] fat_read_body_def demo_wanted demo_linkmap_40)

section \<open>Closing a handle\<close>



section \<open>Reading nothing\<close>

lemma clm_trace:
  "\<exists>cs. trace (snd (fat_create_linkmap E fd w)) = trace w @ cs
        \<and> (\<forall>c \<in> set cs. is_linkmap_call c) \<and> length cs \<le> 4"
proof (cases "cltbl (fil (fh w fd)) = TblNull")
  case False
  then show ?thesis
    by (simp add: fat_create_linkmap_attached)
next
  case null: True
  obtain rc1 f1 t1 e1 g1 where
    r1: "f_lseek (engine E) ((fil (fh w fd))\<lparr>cltbl := TblInline\<rparr>) ((replicate 32 0)[0 := 32])
           CREATE_LINKMAP (errno w, ext w) = ((rc1, f1, t1), e1, g1)"
    by (rule prod5E)
  obtain p e2 g2 where
    r2: "calloc (host E) (unat (fit 32 t1 ! 0)) (e1, g1) = (p, e2, g2)"
    by (rule prod3E)
  show ?thesis
  proof (cases "rc1 = FR_NOT_ENOUGH_CORE")
    case False
    show ?thesis
      unfolding clm_first [OF null r1 False]
      by (simp add: is_linkmap_call_def)
  next
    case nec: True
    show ?thesis
    proof (cases p)
      case None
      show ?thesis
        unfolding clm_nomem [OF null r1 [unfolded nec] r2 [unfolded None]]
        by (simp add: is_linkmap_call_def)
    next
      case (Some a)
      obtain rc2 f3 t3 e3 g3 where
        r3: "f_lseek (engine E) (f1\<lparr>cltbl := TblHeap a\<rparr>)
               ((replicate (unat (fit 32 t1 ! 0)) 0)[0 := fit 32 t1 ! 0])
               CREATE_LINKMAP (e2, g2) = ((rc2, f3, t3), e3, g3)"
        by (rule prod5E)
      show ?thesis
        unfolding clm_retry [OF null r1 [unfolded nec] r2 [unfolded Some] r3]
        by (simp add: is_linkmap_call_def)
    qed
  qed
qed

lemma clm_cursor:
  assumes "sentinel_keeps_cursor E"
  shows "fptr (fil (fh (snd (fat_create_linkmap E fd w)) fd)) = fptr (fil (fh w fd))"
proof (cases "cltbl (fil (fh w fd)) = TblNull")
  case False
  then show ?thesis
    by (simp add: fat_create_linkmap_attached)
next
  case null: True
  have keep: "f_lseek (engine E) f buf CREATE_LINKMAP x = ((rc, f', t), y) \<Longrightarrow> fptr f' = fptr f"
    for f buf x rc f' t y
    using assms unfolding sentinel_keeps_cursor_def
    by (metis (mono_tags, lifting) case_prod_conv)
  obtain rc1 f1 t1 e1 g1 where
    r1: "f_lseek (engine E) ((fil (fh w fd))\<lparr>cltbl := TblInline\<rparr>) ((replicate 32 0)[0 := 32])
           CREATE_LINKMAP (errno w, ext w) = ((rc1, f1, t1), e1, g1)"
    by (rule prod5E)
  from keep [OF r1] have k1: "fptr f1 = fptr (fil (fh w fd))" by simp
  obtain p e2 g2 where
    r2: "calloc (host E) (unat (fit 32 t1 ! 0)) (e1, g1) = (p, e2, g2)"
    by (rule prod3E)
  show ?thesis
  proof (cases "rc1 = FR_NOT_ENOUGH_CORE")
    case False
    show ?thesis
      unfolding clm_first [OF null r1 False]
      by (simp add: k1)
  next
    case nec: True
    show ?thesis
    proof (cases p)
      case None
      show ?thesis
        unfolding clm_nomem [OF null r1 [unfolded nec] r2 [unfolded None]]
        by (simp add: k1)
    next
      case (Some a)
      obtain rc2 f3 t3 e3 g3 where
        r3: "f_lseek (engine E) (f1\<lparr>cltbl := TblHeap a\<rparr>)
               ((replicate (unat (fit 32 t1 ! 0)) 0)[0 := fit 32 t1 ! 0])
               CREATE_LINKMAP (e2, g2) = ((rc2, f3, t3), e3, g3)"
        by (rule prod5E)
      from keep [OF r3] have k3: "fptr f3 = fptr f1" by simp
      show ?thesis
        unfolding clm_retry [OF null r1 [unfolded nec] r2 [unfolded Some] r3]
        by (simp add: k1 k3)
    qed
  qed
qed

lemma demo_sentinel: "sentinel_keeps_cursor demo_env"
  by (simp add: sentinel_keeps_cursor_def demo_env_def demo_engine_def demo_lseek_def)

text \<open>
  Claim C7 as stated does not hold: on a read-only handle without a link map whose file is
  larger than a cluster, a read of size 0 returns 0 after it has called the engine's
  \<^verbatim>\<open>f_lseek\<close> with the link-map sentinel.  The cursor is where it was.
\<close>

theorem fat_read_zero_counterexample:
  "hnd_fd 1 = Some 0 \<and> valid_handle demo_env (demo_opened 10) 0
   \<and> fat_read demo_env 1 0 0 (demo_opened 10) = Inr (0, demo_linked)
   \<and> trace demo_linked = trace (demo_opened 10)
        @ [Call_f_lseek (fil (demo_file TblInline [])) ((replicate 32 0)[0 := 32]) CREATE_LINKMAP]
   \<and> trace demo_linked \<noteq> trace (demo_opened 10)
   \<and> fptr (fil (fh demo_linked 0)) = fptr (fil (fh (demo_opened 10) 0))"
proof -
  have v: "valid_handle demo_env (demo_opened 10) 0"
    by (simp add: valid_handle_def open_handle_def demo_opened_def demo_file_def demo_defs)
  have t: "trace demo_linked = trace (demo_opened 10)
        @ [Call_f_lseek (fil (demo_file TblInline [])) ((replicate 32 0)[0 := 32]) CREATE_LINKMAP]"
    by (simp add: demo_linked_def)
  then have n: "trace demo_linked \<noteq> trace (demo_opened 10)"
    by simp
  have c: "fptr (fil (fh demo_linked 0)) = fptr (fil (fh (demo_opened 10) 0))"
    by (simp add: demo_linked_def demo_opened_def demo_file_def)
  from hnd_fd_1 v demo_read0_10 t n c show ?thesis
    by blast
qed

text \<open>
  Claim C7, amended.  For every valid open handle a read of size 0 returns 0, never calls
  the engine's read, and does not alter the file cursor, the engine's sentinel seek building
  the index instead of moving the cursor (\<open>sentinel_keeps_cursor\<close>).  It does not always
  leave the engine untouched.  When the handle has a link map, or is not read-only, or its
  file is not larger than one cluster, nothing is called and the state is unchanged.
  Otherwise the read builds the link map first: the state is the one \<^verbatim>\<open>fat_create_linkmap\<close>
  leaves, and the only calls made are those of the builder (at most four: sentinel seeks,
  one allocation, one release).
\<close>

theorem fat_read_zero:
  assumes "hnd_fd hnd = Some fd" and "valid_handle E w fd"
  shows "\<exists>m v d w'.
           mnt (fh w fd) = Some m \<and> fs (fat_mnt w m) = Some v \<and> dev (fat_mnt w m) = Some d
           \<and> fat_read E hnd buffer 0 w = Inr (0, w')
           \<and> (let sf = fh w fd;
                   build = (cltbl (fil sf) = TblNull
                            \<and> mode sf AND O_MODE_MASK (od E) = O_RDONLY (od E)
                            \<and> word_of_nat (unat (csize v) * 2 ^ l_block_size d) < fsize (fil sf))
               in (\<not> build \<longrightarrow> w' = w)
                \<and> (build \<longrightarrow> w' = snd (fat_create_linkmap E fd w))
                \<and> (\<exists>cs. trace w' = trace w @ cs
                         \<and> (\<forall>c \<in> set cs. is_linkmap_call c) \<and> length cs \<le> 4)
                \<and> (sentinel_keeps_cursor E \<longrightarrow> fptr (fil (fh w' fd)) = fptr (fil (fh w fd))))"
proof -
  from assms(2) obtain m v d where
    m: "mnt (fh w fd) = Some m" "fs (fat_mnt w m) = Some v" "dev (fat_mnt w m) = Some d"
    by (auto simp: valid_handle_def split: option.splits)
  let ?build = "cltbl (fil (fh w fd)) = TblNull
                \<and> mode (fh w fd) AND O_MODE_MASK (od E) = O_RDONLY (od E)
                \<and> word_of_nat (unat (csize v) * 2 ^ l_block_size d) < fsize (fil (fh w fd))"
  have lw: "linkmap_wanted E fd w = Inr ?build"
    using m by (auto simp add: linkmap_wanted_def Let_def)
  have rd: "fat_read E hnd buffer 0 w = Inr (0, if ?build then snd (fat_create_linkmap E fd w) else w)"
    using assms(1) by (simp add: fat_read_def accept_simps fat_read_body_def lw Let_def)
  show ?thesis
  proof (cases ?build)
    case True
    with m rd clm_trace [of E fd w] clm_cursor [of E fd w] show ?thesis
      by (simp add: Let_def)
  next
    case False
    with m rd show ?thesis
      by (auto simp add: Let_def)
  qed
qed

theorem fat_read_zero_witness:
  "hnd_fd 1 = Some 0 \<and> valid_handle demo_env (demo_opened 40) 0
   \<and> sentinel_keeps_cursor demo_env
   \<and> fat_read demo_env 1 0 0 (demo_opened 40) = Inr (0, demo_mapped)
   \<and> demo_mapped = snd (fat_create_linkmap demo_env 0 (demo_opened 40))
   \<and> fptr (fil (fh demo_mapped 0)) = fptr (fil (fh (demo_opened 40) 0))
   \<and> valid_handle demo_env demo_mapped 0
   \<and> fat_read demo_env 1 0 0 demo_mapped = Inr (0, demo_mapped)"
proof -
  have v1: "valid_handle demo_env (demo_opened 40) 0"
    by (simp add: valid_handle_def open_handle_def demo_opened_def demo_file_def demo_defs)
  have v2: "valid_handle demo_env demo_mapped 0"
    by (simp add: valid_handle_def open_handle_def demo_mapped_def demo_opened_def demo_file_def demo_defs)
  have b1: "cltbl (fil (fh (demo_opened 40) 0)) = TblNull"
           "mode (fh (demo_opened 40) 0) AND O_MODE_MASK (od demo_env) = O_RDONLY (od demo_env)"
           "fsize (fil (fh (demo_opened 40) 0)) = 100000"
           "mnt (fh (demo_opened 40) 0) = Some 0"
           "fs (fat_mnt (demo_opened 40) 0) = Some demo_fs" "dev (fat_mnt (demo_opened 40) 0) = Some demo_pio"
    by (simp_all add: demo_opened_def demo_file_def demo_defs)
  have b2: "cltbl (fil (fh demo_mapped 0)) = TblHeap 7"
    by (simp add: demo_mapped_def demo_file_def)
  have sz: "(word_of_nat (unat (csize demo_fs) * 2 ^ l_block_size demo_pio) :: DWORD) < 100000"
    by (simp add: demo_fs_def demo_pio_def)
  from fat_read_zero [OF hnd_fd_1 v1, of 0] b1 sz demo_sentinel
  have r1: "fat_read demo_env 1 0 0 (demo_opened 40)
              = Inr (0, snd (fat_create_linkmap demo_env 0 (demo_opened 40)))"
    and c1: "fptr (fil (fh (snd (fat_create_linkmap demo_env 0 (demo_opened 40))) 0))
              = fptr (fil (fh (demo_opened 40) 0))"
    by (auto simp: Let_def)
  from fat_read_zero [OF hnd_fd_1 v2, of 0] b2
  have r2: "fat_read demo_env 1 0 0 demo_mapped = Inr (0, demo_mapped)"
    by (auto simp: Let_def)
  from hnd_fd_1 v1 v2 r1 c1 r2 demo_sentinel show ?thesis
    by (simp add: demo_linkmap_40)
qed

section \<open>Opening for append\<close>













section \<open>Routing of disk requests\<close>

text \<open>
  Claim C2 as stated does not hold for every read request.  In a build with the DMA scratch
  buffer, a two-sector read into the unaligned address 0x1004 on a mount with a DMA device,
  clusters of 8 sectors and a scratch buffer at 0x8000 goes to the DMA device with the
  scratch buffer as destination and is then copied to the caller: the DMA device is used
  although the buffer is not aligned, and the primary device is not used.  And a read for
  drive 1, which is not mounted, returns \<^verbatim>\<open>STA_NOINIT\<close> and uses no device at all.
\<close>

theorem disk_read_route_counterexample:
  "FAT_GET_MOUNT demo_env_dmabuf 0 (demo_mounted 0) = Some 0
   \<and> dev (fat_mnt (demo_mounted 0) 0) = Some demo_pio
   \<and> dev_dma (fat_mnt (demo_mounted 0) 0) = Some demo_dma
   \<and> demo_dma \<noteq> demo_pio
   \<and> (0x1004 :: DWORD) AND 31 \<noteq> 0
   \<and> disk_read demo_env_dmabuf 0 0x1004 0 2 (demo_mounted 0) =
       Inr (RES_OK, (demo_mounted 0)\<lparr>trace := [Call_read_blocks demo_dma 0 2 0x8000,
                                                Call_memcpy 0x1004 0x8000 1024]\<rparr>)
   \<and> FAT_GET_MOUNT demo_env 1 (demo_mounted 0) = None
   \<and> disk_read demo_env 1 0x1000 0 2 (demo_mounted 0) = Inr (STA_NOINIT, demo_mounted 0)"
  by (simp add: disk_read_def read_route_def FAT_GET_MOUNT_def ext_call_def demo_env_dmabuf_def
        demo_defs Let_def)

text \<open>
  Claim C2, amended.  A request for a drive that is not mounted (number not below
  \<^verbatim>\<open>MAX_FAT_MOUNTS\<close>, or no device in the slot) returns \<^verbatim>\<open>STA_NOINIT\<close> and leaves the state,
  and so the record of device calls, unchanged.  On a mounted drive a write makes exactly one
  call, to the primary device with the caller's buffer, whatever the count and the alignment.
  A read on a mounted drive goes to the DMA device with the caller's buffer exactly when more
  than one sector is asked, a DMA device is registered and the buffer is 32-byte aligned.
  Otherwise it goes to the primary device with the caller's buffer, except in a build with
  the scratch buffer for a request of more than one sector, not aligned, on a mount with a
  DMA device: there the work area is read (a null dereference if there is none) and, if the
  request is of at most one cluster, the transfer is made by the DMA device into the
  scratch buffer and copied to the caller when a scratch buffer exists, and is a null
  dereference when it does not (the pointer is not tested).
\<close>

theorem disk_route:
  "(FAT_GET_MOUNT E pdrv w = None \<longrightarrow>
      disk_read E pdrv buff sector count w = Inr (STA_NOINIT, w)
    \<and> disk_write E pdrv buff sector count w = Inr (STA_NOINIT, w))
   \<and> (\<forall>pio. unat pdrv < MAX_FAT_MOUNTS E \<and> dev (fat_mnt w (unat pdrv)) = Some pio \<longrightarrow>
        (let m = fat_mnt w (unat pdrv);
             reads = (\<lambda>d dest cp. \<exists>rc w'. disk_read E pdrv buff sector count w = Inr (rc, w')
                          \<and> trace w' = trace w @ Call_read_blocks d sector count dest # cp)
         in (\<exists>rc w'. disk_write E pdrv buff sector count w = Inr (rc, w')
               \<and> trace w' = trace w @ [Call_write_blocks pio sector count buff])
          \<and> (case dev_dma m of
                None \<Rightarrow> reads pio buff []
              | Some dma \<Rightarrow>
                  if 1 < count \<and> buff AND 31 = 0 then reads dma buff []
                  else if FATFS_USE_DMA_BUF E \<and> 1 < count then
                    (case fs m of
                       None \<Rightarrow> disk_read E pdrv buff sector count w = Inl NullDeref
                     | Some v \<Rightarrow>
                         if count \<le> ucast (csize v) then
                           (if dmabuf m = 0 then disk_read E pdrv buff sector count w = Inl NullDeref
                            else reads dma (dmabuf m)
                                   (if dmabuf m \<noteq> buff
                                    then [Call_memcpy buff (dmabuf m) (push_bit (l_block_size dma) count)]
                                    else []))
                         else reads pio buff [])
                  else reads pio buff [])))"
  by (auto simp: disk_read_def disk_write_def read_route_def FAT_GET_MOUNT_def ext_call_def
        split_beta Let_def split: option.split)

theorem disk_route_witness:
  "FAT_GET_MOUNT demo_env 1 (demo_mounted 0) = None
   \<and> disk_read demo_env 1 0x1000 5 2 (demo_mounted 0) = Inr (STA_NOINIT, demo_mounted 0)
   \<and> disk_write demo_env 1 0x1000 5 2 (demo_mounted 0) = Inr (STA_NOINIT, demo_mounted 0)
   \<and> unat (0 :: BYTE) < MAX_FAT_MOUNTS demo_env
   \<and> dev (fat_mnt (demo_mounted 0) (unat (0 :: BYTE))) = Some demo_pio
   \<and> dev_dma (fat_mnt (demo_mounted 0) (unat (0 :: BYTE))) = Some demo_dma
   \<and> (\<exists>rc w'. disk_read demo_env 0 0x1000 5 2 (demo_mounted 0) = Inr (rc, w')
          \<and> trace w' = [Call_read_blocks demo_dma 5 2 0x1000])
   \<and> (\<exists>rc w'. disk_read demo_env 0 0x1004 5 2 (demo_mounted 0) = Inr (rc, w')
          \<and> trace w' = [Call_read_blocks demo_pio 5 2 0x1004])
   \<and> (\<exists>rc w'. disk_read demo_env 0 0x1000 5 1 (demo_mounted 0) = Inr (rc, w')
          \<and> trace w' = [Call_read_blocks demo_pio 5 1 0x1000])
   \<and> (\<exists>rc w'. disk_write demo_env 0 0x1000 5 2 (demo_mounted 0) = Inr (rc, w')
          \<and> trace w' = [Call_write_blocks demo_pio 5 2 0x1000])
   \<and> (\<exists>rc w'. disk_read demo_env_dmabuf 0 0x1004 5 2 (demo_mounted 0) = Inr (rc, w')
          \<and> trace w' = [Call_read_blocks demo_dma 5 2 0x8000, Call_memcpy 0x1004 0x8000 1024])
   \<and> (\<exists>rc w'. disk_read demo_env_dmabuf 0 0x1004 5 9 (demo_mounted 0) = Inr (rc, w')
          \<and> trace w' = [Call_read_blocks demo_pio 5 9 0x1004])
   \<and> dev (fat_mnt demo_nobuf (unat (0 :: BYTE))) = Some demo_pio
   \<and> dmabuf (fat_mnt demo_nobuf (unat (0 :: BYTE))) = 0
   \<and> disk_read demo_env_dmabuf 0 0x1004 5 2 demo_nobuf = Inl NullDeref"
proof -
  have u: "FAT_GET_MOUNT demo_env 1 (demo_mounted 0) = None"
    by (simp add: FAT_GET_MOUNT_def demo_mounted_def demo_mnt_def demo_world_def demo_env_def zero_mnt_def)
  have h: "unat (0 :: BYTE) < MAX_FAT_MOUNTS demo_env" "unat (0 :: BYTE) < MAX_FAT_MOUNTS demo_env_dmabuf"
    "dev (fat_mnt (demo_mounted 0) (unat (0 :: BYTE))) = Some demo_pio"
    "fs (fat_mnt (demo_mounted 0) (unat (0 :: BYTE))) = Some demo_fs"
    "dev_dma (fat_mnt (demo_mounted 0) (unat (0 :: BYTE))) = Some demo_dma"
    "dmabuf (fat_mnt (demo_mounted 0) (unat (0 :: BYTE))) = 0x8000"
    "trace (demo_mounted 0) = []" "\<not> FATFS_USE_DMA_BUF demo_env" "FATFS_USE_DMA_BUF demo_env_dmabuf"
    "csize demo_fs = 8" "l_block_size demo_dma = 9"
    by (simp_all add: demo_mounted_def demo_mnt_def demo_world_def demo_env_def demo_env_dmabuf_def
          demo_fs_def demo_dma_def)
  have n: "dev (fat_mnt demo_nobuf (unat (0 :: BYTE))) = Some demo_pio"
    "fs (fat_mnt demo_nobuf (unat (0 :: BYTE))) = Some demo_fs"
    "dev_dma (fat_mnt demo_nobuf (unat (0 :: BYTE))) = Some demo_dma"
    "dmabuf (fat_mnt demo_nobuf (unat (0 :: BYTE))) = 0"
    by (simp_all add: demo_nobuf_def demo_mnt_def)
  have a: "(0x1000 :: DWORD) AND 31 = 0" "(0x1004 :: DWORD) AND 31 \<noteq> 0" by simp_all
  from disk_route [of demo_env 1 "demo_mounted 0" "0x1000" 5 2] u
  have r0: "disk_read demo_env 1 0x1000 5 2 (demo_mounted 0) = Inr (STA_NOINIT, demo_mounted 0)"
           "disk_write demo_env 1 0x1000 5 2 (demo_mounted 0) = Inr (STA_NOINIT, demo_mounted 0)"
    by blast+
  from disk_route [of demo_env 0 "demo_mounted 0" "0x1000" 5 2] h a
  have r1: "\<exists>rc w'. disk_read demo_env 0 0x1000 5 2 (demo_mounted 0) = Inr (rc, w')
          \<and> trace w' = [Call_read_blocks demo_dma 5 2 0x1000]"
    and r4: "\<exists>rc w'. disk_write demo_env 0 0x1000 5 2 (demo_mounted 0) = Inr (rc, w')
          \<and> trace w' = [Call_write_blocks demo_pio 5 2 0x1000]"
    by (simp_all add: Let_def)
  from disk_route [of demo_env 0 "demo_mounted 0" "0x1004" 5 2] h a
  have r2: "\<exists>rc w'. disk_read demo_env 0 0x1004 5 2 (demo_mounted 0) = Inr (rc, w')
          \<and> trace w' = [Call_read_blocks demo_pio 5 2 0x1004]"
    by (simp add: Let_def)
  from disk_route [of demo_env 0 "demo_mounted 0" "0x1000" 5 1] h a
  have r3: "\<exists>rc w'. disk_read demo_env 0 0x1000 5 1 (demo_mounted 0) = Inr (rc, w')
          \<and> trace w' = [Call_read_blocks demo_pio 5 1 0x1000]"
    by (simp add: Let_def)
  from disk_route [of demo_env_dmabuf 0 "demo_mounted 0" "0x1004" 5 2] h a
  have r5: "\<exists>rc w'. disk_read demo_env_dmabuf 0 0x1004 5 2 (demo_mounted 0) = Inr (rc, w')
          \<and> trace w' = [Call_read_blocks demo_dma 5 2 0x8000, Call_memcpy 0x1004 0x8000 1024]"
    by (simp add: Let_def)
  from disk_route [of demo_env_dmabuf 0 "demo_mounted 0" "0x1004" 5 9] h a
  have r6: "\<exists>rc w'. disk_read demo_env_dmabuf 0 0x1004 5 9 (demo_mounted 0) = Inr (rc, w')
          \<and> trace w' = [Call_read_blocks demo_pio 5 9 0x1004]"
    by (simp add: Let_def)
  from disk_route [of demo_env_dmabuf 0 demo_nobuf "0x1004" 5 2] h n a
  have r7: "disk_read demo_env_dmabuf 0 0x1004 5 2 demo_nobuf = Inl NullDeref"
    by (simp add: Let_def)
  from u r0 h(1,3,5) r1 r2 r3 r4 r5 r6 n(1,4) r7 show ?thesis by blast
qed

end
